theory Spec2Isabelle
  imports Complex_Main "HOL-Library.Word"
begin

section \<open>Numbers, events and outcomes\<close>

text \<open>
  The editor is a React application.  JavaScript numbers are IEEE 754 doubles.  A finite
  double is modelled by the real number it denotes, and an arithmetic operation of a
  handler by the exact operation followed by the rounding \<open>rnd\<close> to the nearest double,
  ties going to the even significand.  The infinities, \<^verbatim>\<open>NaN\<close> and the sign of zero are
  not modelled: the theorems about arithmetic bound their arguments, so that no result
  reaches \<open>2 ^ 1024\<close>, and divide by a zoom within 0.2 and 3 only.  Bytes of a canvas
  pixel buffer are \<^typ>\<open>8 word\<close>.
\<close>

subsection \<open>Doubles\<close>

text \<open>\<open>pow2 e\<close> is 2 to the power \<open>e\<close>, for any integer \<open>e\<close>.\<close>

definition pow2 :: "int \<Rightarrow> real" where
  "pow2 e = (if 0 \<le> e then 2 ^ nat e else 1 / 2 ^ nat (- e))"

text \<open>
  The binary exponent of a magnitude \<open>a\<close>: the \<open>e\<close> with \<open>2 ^ e \<le> a < 2 ^ (e + 1)\<close>,
  searched upwards from 0 when \<open>1 \<le> a\<close> and downwards otherwise, and kept within the
  exponents of normal doubles, from \<open>- 1022\<close> (below it the doubles are subnormal and
  share the spacing of that exponent) to 1023.
\<close>

function expo_up :: "int \<Rightarrow> real \<Rightarrow> int" where
  "expo_up e a = (if e < 1023 \<and> pow2 (e + 1) \<le> a then expo_up (e + 1) a else e)"
  by pat_completeness auto
termination
  by (relation "measure (\<lambda>(e, a). nat (1023 - e))") auto

function expo_down :: "int \<Rightarrow> real \<Rightarrow> int" where
  "expo_down e a = (if - 1022 < e \<and> a < pow2 e then expo_down (e - 1) a else e)"
  by pat_completeness auto
termination
  by (relation "measure (\<lambda>(e, a). nat (e + 1022))") auto

declare expo_up.simps [simp del] expo_down.simps [simp del]

definition expo :: "real \<Rightarrow> int" where
  "expo x = (if \<bar>x\<bar> < 1 then expo_down 0 \<bar>x\<bar> else expo_up 0 \<bar>x\<bar>)"

text \<open>Rounding to the nearest integer, a tie going to the even one.\<close>

definition round_even :: "real \<Rightarrow> int" where
  "round_even y =
     (let f = \<lfloor>y\<rfloor>; r = y - of_int f
      in if r < 1 / 2 then f else if 1 / 2 < r then f + 1 else if even f then f else f + 1)"

text \<open>
  Rounding to double: doubles of exponent \<open>e\<close> are the multiples of \<open>2 ^ (e - 52)\<close>, a
  significand of 53 bits.
\<close>

definition rnd :: "real \<Rightarrow> real" where
  "rnd x = (let u = pow2 (expo x - 52) in of_int (round_even (x / u)) * u)"

text \<open>
  The operators \<^verbatim>\<open>+\<close>, \<^verbatim>\<open>-\<close>, \<^verbatim>\<open>*\<close> and \<^verbatim>\<open>/\<close> on numbers (the divisor not zero).
  \<^verbatim>\<open>Math.max\<close> and \<^verbatim>\<open>Math.min\<close> return one of their arguments and are \<open>max\<close> and
  \<open>min\<close>.  A decimal literal such as \<^verbatim>\<open>0.1\<close> denotes the double nearest to it,
  \<open>rnd (1 / 10)\<close>; the integer literals used here are doubles themselves.
\<close>

definition js_add :: "real \<Rightarrow> real \<Rightarrow> real" where
  "js_add a b = rnd (a + b)"

definition js_sub :: "real \<Rightarrow> real \<Rightarrow> real" where
  "js_sub a b = rnd (a - b)"

definition js_mul :: "real \<Rightarrow> real \<Rightarrow> real" where
  "js_mul a b = rnd (a * b)"

definition js_div :: "real \<Rightarrow> real \<Rightarrow> real" where
  "js_div a b = rnd (a / b)"

subsection \<open>Pointer events and geometry\<close>

text \<open>
  A pointer event (mouse or touch) carries the screen position \<open>clientX\<close>, \<open>clientY\<close>
  and a target node.  The handlers only ask three questions about the target, which
  are the three flags of the record:
  \<^item> \<open>in_container\<close>: \<^verbatim>\<open>containerRef.current.contains(e.target)\<close>
    (\<^verbatim>\<open>contentRef\<close> for a text element),
  \<^item> \<open>in_control_btn\<close>: \<^verbatim>\<open>target.closest('.control-btn')\<close> is not null,
  \<^item> \<open>in_tool_panel\<close>: \<^verbatim>\<open>target.closest('.tool-panel')\<close> is not null.
\<close>

record pointer_event =
  clientX :: real
  clientY :: real
  in_container :: bool
  in_control_btn :: bool
  in_tool_panel :: bool

text \<open>A position \<^verbatim>\<open>{x, y}\<close> and a size \<^verbatim>\<open>{width, height}\<close>.\<close>

record pos =
  pos_x :: real
  pos_y :: real

record dim =
  width :: real
  height :: real

text \<open>\<^verbatim>\<open>startDimRef\<close>: the snapshot \<^verbatim>\<open>{w, h, x, y}\<close> taken when a resize starts.\<close>

record start_dim =
  sd_w :: real
  sd_h :: real
  sd_x :: real
  sd_y :: real

text \<open>The crop percentages \<^verbatim>\<open>{t, r, b, l}\<close>.\<close>

record crop_rect =
  crop_t :: real
  crop_r :: real
  crop_b :: real
  crop_l :: real

section \<open>DraggableImage\<close>

text \<open>
  The component state of \<^verbatim>\<open>DraggableImage\<close>: every \<^verbatim>\<open>useState\<close> cell and the two
  mutable refs \<^verbatim>\<open>dragStartRef\<close> and \<^verbatim>\<open>startDimRef\<close> (\<open>None\<close> is \<^verbatim>\<open>null\<close>).  An image
  source (\<^verbatim>\<open>src\<close>, \<^verbatim>\<open>processedSrc\<close>) is a data URL, a string.  The slider of the
  background-removal panel has \<^verbatim>\<open>min="0" max="100"\<close> and the default step 1, so
  \<^verbatim>\<open>threshold\<close> is an integer.
\<close>

record image_state =
  position :: pos
  img_size :: dim
  processedSrc :: string
  showMagic :: bool
  showCrop :: bool
  threshold :: int
  crop :: crop_rect
  isDragging :: bool
  isResizing :: bool
  isSelected :: bool
  dragStartRef :: "pos option"
  startDimRef :: "start_dim option"

text \<open>The initial values of the \<^verbatim>\<open>useState\<close> and \<^verbatim>\<open>useRef\<close> calls (lines 20 to 35).\<close>

definition DraggableImage_init :: "string \<Rightarrow> real \<Rightarrow> real \<Rightarrow> image_state" where
  "DraggableImage_init src initialX initialY =
     \<lparr> position = \<lparr> pos_x = initialX, pos_y = initialY \<rparr>,
       img_size = \<lparr> width = 200, height = 200 \<rparr>,
       processedSrc = src,
       showMagic = False,
       showCrop = False,
       threshold = 0,
       crop = \<lparr> crop_t = 0, crop_r = 0, crop_b = 0, crop_l = 0 \<rparr>,
       isDragging = False,
       isResizing = False,
       isSelected = False,
       dragStartRef = None,
       startDimRef = None \<rparr>"


subsection \<open>The image-processing effect (lines 46 to 82)\<close>

text \<open>
  The pixel buffer of a canvas: \<^verbatim>\<open>getImageData\<close> returns \<open>4 * width * height\<close> bytes,
  four (red, green, blue, alpha) per pixel, row by row.
\<close>

record raster =
  r_width :: nat
  r_height :: nat
  r_data :: "8 word list"

text \<open>
  \<^verbatim>\<open>data[i]\<close> on a typed array: the byte as a number, or \<^verbatim>\<open>undefined\<close> (\<open>None\<close>)
  beyond the end.
\<close>

definition byte_at :: "8 word list \<Rightarrow> nat \<Rightarrow> real option" where
  "byte_at d i = (if i < length d then Some (real (unat (d ! i))) else None)"

text \<open>
  \<^verbatim>\<open>(r + g + b) / 3\<close> for the pixel that starts at index \<open>i\<close>.  With an
  \<^verbatim>\<open>undefined\<close> operand the sum is \<^verbatim>\<open>NaN\<close>, written \<open>None\<close>.
\<close>

definition brightness :: "8 word list \<Rightarrow> nat \<Rightarrow> real option" where
  "brightness d i =
     (case byte_at d i of
        None \<Rightarrow> None
      | Some r \<Rightarrow>
          (case byte_at d (i + 1) of
             None \<Rightarrow> None
           | Some g \<Rightarrow>
               (case byte_at d (i + 2) of
                  None \<Rightarrow> None
                | Some b \<Rightarrow> Some ((r + g + b) / 3))))"

text \<open>\<^verbatim>\<open>brightness > thresh\<close>; every comparison with \<^verbatim>\<open>NaN\<close> is false.\<close>

definition exceeds :: "real option \<Rightarrow> real \<Rightarrow> bool" where
  "exceeds br thresh = (case br of None \<Rightarrow> False | Some v \<Rightarrow> thresh < v)"

text \<open>\<^verbatim>\<open>const thresh = 255 - (threshold * 2.55)\<close>\<close>

definition thresh_of :: "int \<Rightarrow> real" where
  "thresh_of t = 255 - (real_of_int t * 2.55)"

text \<open>
  The loop \<^verbatim>\<open>for (let i = 0; i < data.length; i += 4)\<close>, from index \<open>i\<close> on.  A
  write beyond the end of a typed array is ignored, as \<open>list_update\<close> does.
\<close>

function removeLoop :: "real \<Rightarrow> nat \<Rightarrow> 8 word list \<Rightarrow> 8 word list" where
  "removeLoop thresh i d =
     (if i < length d
      then removeLoop thresh (i + 4)
             (if exceeds (brightness d i) thresh then d[i + 3 := 0] else d)
      else d)"
  by pat_completeness auto
termination
  by (relation "measure (\<lambda>(thresh, i, d). length d - i)") auto

declare removeLoop.simps [simp del]

text \<open>
  The effect itself.  Its surroundings are parameters:
  \<^item> \<open>decode\<close>: what \<^verbatim>\<open>drawImage\<close> followed by \<^verbatim>\<open>getImageData\<close> yields for the
    image held in \<^verbatim>\<open>originalImageRef\<close>, whose source is \<open>src\<close>;
  \<^item> \<open>encode\<close>: \<^verbatim>\<open>putImageData\<close> followed by \<^verbatim>\<open>canvas.toDataURL()\<close>;
  \<^item> \<open>img_complete\<close>: \<^verbatim>\<open>img.complete\<close>;
  \<^item> \<open>ctx\<close>: \<^verbatim>\<open>canvas.getContext('2d')\<close> is not null.
\<close>

definition remove_background :: "int \<Rightarrow> raster \<Rightarrow> raster" where
  "remove_background t imgData =
     (let thresh = thresh_of t
      in imgData\<lparr>r_data := removeLoop thresh 0 (r_data imgData)\<rparr>)"

definition process_effect ::
  "(string \<Rightarrow> raster) \<Rightarrow> (raster \<Rightarrow> string) \<Rightarrow> bool \<Rightarrow> bool \<Rightarrow> string
     \<Rightarrow> image_state \<Rightarrow> image_state" where
  "process_effect decode encode img_complete ctx src s =
     (if threshold s = 0 then s\<lparr>processedSrc := src\<rparr>
      else if \<not> img_complete then s
      else if \<not> ctx then s
      else s\<lparr>processedSrc := encode (remove_background (threshold s) (decode src))\<rparr>)"

text \<open>
  Pixel \<open>p\<close> of a buffer, as (red, green, blue, alpha), and the average of the three
  colour channels of a pixel.
\<close>

definition pixel :: "raster \<Rightarrow> nat \<Rightarrow> 8 word \<times> 8 word \<times> 8 word \<times> 8 word" where
  "pixel img p =
     (r_data img ! (4 * p), r_data img ! (4 * p + 1), r_data img ! (4 * p + 2),
      r_data img ! (4 * p + 3))"

fun rgb_average :: "8 word \<times> 8 word \<times> 8 word \<times> 8 word \<Rightarrow> real" where
  "rgb_average (r, g, b, a) = (real (unat r) + real (unat g) + real (unat b)) / 3"

fun transparent :: "8 word \<times> 8 word \<times> 8 word \<times> 8 word \<Rightarrow> 8 word \<times> 8 word \<times> 8 word \<times> 8 word" where
  "transparent (r, g, b, a) = (r, g, b, 0)"

text \<open>A decoded image: \<^verbatim>\<open>getImageData\<close> gave four bytes for each of its pixels.\<close>

definition well_formed :: "raster \<Rightarrow> bool" where
  "well_formed img =
     (0 < r_width img \<and> 0 < r_height img
      \<and> length (r_data img) = 4 * (r_width img * r_height img))"

text \<open>A solid white image of 2 by 2 pixels, and its data URL in the examples.\<close>

definition white2x2 :: raster where
  "white2x2 = \<lparr> r_width = 2, r_height = 2, r_data = replicate 16 255 \<rparr>"

definition decode_white :: "string \<Rightarrow> raster" where
  "decode_white src = white2x2"

definition encode_alpha :: "raster \<Rightarrow> string" where
  "encode_alpha img = (if r_data img ! 3 = 0 then ''transparent'' else ''opaque'')"

subsection \<open>Interaction handlers (lines 85 to 162 and the control buttons)\<close>

text \<open>
  \<open>zoom\<close> is the component's prop.  The handlers are written over the current state:
  the effect that installs them runs again whenever \<^verbatim>\<open>isDragging\<close>, \<^verbatim>\<open>isResizing\<close> or
  \<^verbatim>\<open>zoom\<close> changes, so the values they close over are those of the last render.
\<close>

definition drag_branch :: "real \<Rightarrow> pointer_event \<Rightarrow> image_state \<Rightarrow> image_state" where
  "drag_branch zoom e s =
     (case dragStartRef s of
        None \<Rightarrow> s
      | Some st \<Rightarrow>
          if isDragging s
          then (let dx = js_div (js_sub (clientX e) (pos_x st)) zoom;
                    dy = js_div (js_sub (clientY e) (pos_y st)) zoom
                in s\<lparr>position := \<lparr>pos_x = js_add (pos_x (position s)) dx,
                                  pos_y = js_add (pos_y (position s)) dy\<rparr>,
                      dragStartRef := Some \<lparr>pos_x = clientX e, pos_y = clientY e\<rparr>\<rparr>)
          else s)"

definition resize_branch :: "real \<Rightarrow> pointer_event \<Rightarrow> image_state \<Rightarrow> image_state" where
  "resize_branch zoom e s =
     (case startDimRef s of
        None \<Rightarrow> s
      | Some sd \<Rightarrow>
          (case dragStartRef s of
             None \<Rightarrow> s
           | Some st \<Rightarrow>
               if isResizing s
               then (let dx = js_div (js_sub (clientX e) (pos_x st)) zoom;
                         dy = js_div (js_sub (clientY e) (pos_y st)) zoom
                     in s\<lparr>img_size := \<lparr>width = max 50 (js_add (sd_w sd) dx),
                                       height = max 50 (js_add (sd_h sd) dy)\<rparr>\<rparr>)
               else s))"

text \<open>\<^verbatim>\<open>handleMouseMove\<close>: the two \<^verbatim>\<open>if\<close> statements in sequence.\<close>

definition handleMouseMove :: "real \<Rightarrow> pointer_event \<Rightarrow> image_state \<Rightarrow> image_state" where
  "handleMouseMove zoom e s = resize_branch zoom e (drag_branch zoom e s)"

definition handleMouseUp :: "image_state \<Rightarrow> image_state" where
  "handleMouseUp s =
     s\<lparr>isDragging := False, isResizing := False, dragStartRef := None, startDimRef := None\<rparr>"

text \<open>
  The \<^verbatim>\<open>mousedown\<close> listener on the window.  The element is mounted, so
  \<^verbatim>\<open>containerRef.current\<close> is not null.
\<close>

definition handleClickOutside :: "pointer_event \<Rightarrow> image_state \<Rightarrow> image_state" where
  "handleClickOutside e s =
     (if \<not> in_container e
      then (if \<not> in_control_btn e \<and> \<not> in_tool_panel e
            then s\<lparr>isSelected := False, showMagic := False, showCrop := False\<rparr>
            else s)
      else s)"

text \<open>The anonymous \<^verbatim>\<open>touchstart\<close> listener on the window (lines 127 to 135).\<close>

definition touchstartOutside :: "pointer_event \<Rightarrow> image_state \<Rightarrow> image_state" where
  "touchstartOutside e s =
     (if \<not> in_container e
      then (if \<not> in_control_btn e \<and> \<not> in_tool_panel e
            then s\<lparr>isSelected := False\<rparr>
            else s)
      else s)"

text \<open>\<^verbatim>\<open>handleMouseDown\<close>: pointer-down on the Move button.\<close>

definition handleMouseDown :: "pointer_event \<Rightarrow> image_state \<Rightarrow> image_state" where
  "handleMouseDown e s =
     s\<lparr>isDragging := True, dragStartRef := Some \<lparr>pos_x = clientX e, pos_y = clientY e\<rparr>\<rparr>"

text \<open>\<^verbatim>\<open>handleResizeStart\<close>: pointer-down on the corner handle.\<close>

definition handleResizeStart :: "pointer_event \<Rightarrow> image_state \<Rightarrow> image_state" where
  "handleResizeStart e s =
     s\<lparr>isResizing := True,
       dragStartRef := Some \<lparr>pos_x = clientX e, pos_y = clientY e\<rparr>,
       startDimRef := Some \<lparr>sd_w = width (img_size s), sd_h = height (img_size s),
                            sd_x = pos_x (position s), sd_y = pos_y (position s)\<rparr>\<rparr>"

definition handleContainerClick :: "image_state \<Rightarrow> image_state" where
  "handleContainerClick s = s\<lparr>isSelected := True\<rparr>"

text \<open>The two panel buttons and the inputs inside the panels.\<close>

definition toggleMagic :: "image_state \<Rightarrow> image_state" where
  "toggleMagic s = s\<lparr>showMagic := \<not> showMagic s, showCrop := False\<rparr>"

definition toggleCrop :: "image_state \<Rightarrow> image_state" where
  "toggleCrop s = s\<lparr>showCrop := \<not> showCrop s, showMagic := False\<rparr>"

definition onThresholdChange :: "int \<Rightarrow> image_state \<Rightarrow> image_state" where
  "onThresholdChange v s = s\<lparr>threshold := v\<rparr>"

datatype side = Top | Bottom | Left | Right

text \<open>
  The \<^verbatim>\<open>onChange\<close> handlers of the four crop inputs,
  \<^verbatim>\<open>e => setCrop({...crop, t: Number(e.target.value)})\<close> and its three siblings;
  \<open>v\<close> is \<^verbatim>\<open>Number(e.target.value)\<close>.
\<close>

fun onCropChange :: "side \<Rightarrow> real \<Rightarrow> image_state \<Rightarrow> image_state" where
  "onCropChange Top v s = s\<lparr>crop := (crop s)\<lparr>crop_t := v\<rparr>\<rparr>"
| "onCropChange Bottom v s = s\<lparr>crop := (crop s)\<lparr>crop_b := v\<rparr>\<rparr>"
| "onCropChange Left v s = s\<lparr>crop := (crop s)\<lparr>crop_l := v\<rparr>\<rparr>"
| "onCropChange Right v s = s\<lparr>crop := (crop s)\<lparr>crop_r := v\<rparr>\<rparr>"

fun crop_side :: "side \<Rightarrow> crop_rect \<Rightarrow> real" where
  "crop_side Top c = crop_t c"
| "crop_side Bottom c = crop_b c"
| "crop_side Left c = crop_l c"
| "crop_side Right c = crop_r c"

text \<open>\<^verbatim>\<open>showControls = isDragging || isResizing || isSelected\<close>\<close>

definition showControls :: "image_state \<Rightarrow> bool" where
  "showControls s = (isDragging s \<or> isResizing s \<or> isSelected s)"


text \<open>A run of pointer moves, each with the value of the \<^verbatim>\<open>zoom\<close> prop at that moment.\<close>

fun mouseMoves :: "(real \<times> pointer_event) list \<Rightarrow> image_state \<Rightarrow> image_state" where
  "mouseMoves [] s = s"
| "mouseMoves ((z, e) # ms) s = mouseMoves ms (handleMouseMove z e s)"

section \<open>DraggableText\<close>

text \<open>
  The component state of \<^verbatim>\<open>DraggableText\<close>.  The editable content belongs to the
  browser and is not part of it.
\<close>

record text_state =
  txt_position :: pos
  txt_isDragging :: bool
  txt_isHovered :: bool
  txt_isSelected :: bool
  txt_dragStartRef :: "pos option"

definition DraggableText_init :: "real \<Rightarrow> real \<Rightarrow> text_state" where
  "DraggableText_init initialX initialY =
     \<lparr> txt_position = \<lparr> pos_x = initialX, pos_y = initialY \<rparr>,
       txt_isDragging = False,
       txt_isHovered = False,
       txt_isSelected = False,
       txt_dragStartRef = None \<rparr>"

text \<open>
  \<^verbatim>\<open>handleMouseMove\<close> of the text element (lines 318 to 330).  \<^verbatim>\<open>handleTouchMove\<close>
  is the same function of the first touch point \<^verbatim>\<open>e.touches[0]\<close>.
\<close>

definition txt_handleMouseMove :: "real \<Rightarrow> pointer_event \<Rightarrow> text_state \<Rightarrow> text_state" where
  "txt_handleMouseMove zoom e s =
     (case txt_dragStartRef s of
        None \<Rightarrow> s
      | Some st \<Rightarrow>
          if \<not> txt_isDragging s then s
          else (let dx = js_div (js_sub (clientX e) (pos_x st)) zoom;
                    dy = js_div (js_sub (clientY e) (pos_y st)) zoom
                in s\<lparr>txt_position := \<lparr>pos_x = js_add (pos_x (txt_position s)) dx,
                                      pos_y = js_add (pos_y (txt_position s)) dy\<rparr>,
                      txt_dragStartRef := Some \<lparr>pos_x = clientX e, pos_y = clientY e\<rparr>\<rparr>))"

definition txt_handleTouchMove :: "real \<Rightarrow> pointer_event \<Rightarrow> text_state \<Rightarrow> text_state" where
  "txt_handleTouchMove zoom touch s = txt_handleMouseMove zoom touch s"

definition txt_handleEnd :: "text_state \<Rightarrow> text_state" where
  "txt_handleEnd s = s\<lparr>txt_isDragging := False, txt_dragStartRef := None\<rparr>"

text \<open>Here \<open>in_container\<close> is \<^verbatim>\<open>contentRef.current.contains(e.target)\<close>.\<close>

definition txt_handleClickOutside :: "pointer_event \<Rightarrow> text_state \<Rightarrow> text_state" where
  "txt_handleClickOutside e s =
     (if \<not> in_container e
      then (if \<not> in_control_btn e then s\<lparr>txt_isSelected := False\<rparr> else s)
      else s)"

text \<open>\<^verbatim>\<open>handleMouseDown\<close> and \<^verbatim>\<open>handleTouchStart\<close> on the Move handle.\<close>

definition txt_handleMouseDown :: "pointer_event \<Rightarrow> text_state \<Rightarrow> text_state" where
  "txt_handleMouseDown e s =
     s\<lparr>txt_isDragging := True,
       txt_dragStartRef := Some \<lparr>pos_x = clientX e, pos_y = clientY e\<rparr>\<rparr>"

definition txt_handleTouchStart :: "pointer_event \<Rightarrow> text_state \<Rightarrow> text_state" where
  "txt_handleTouchStart touch s = txt_handleMouseDown touch s"

definition txt_handleContainerClick :: "text_state \<Rightarrow> text_state" where
  "txt_handleContainerClick s = s\<lparr>txt_isSelected := True\<rparr>"

text \<open>\<^verbatim>\<open>onMouseEnter\<close>, \<^verbatim>\<open>onMouseLeave\<close> and \<^verbatim>\<open>showControls\<close> of the text element.\<close>

definition txt_onMouseEnter :: "text_state \<Rightarrow> text_state" where
  "txt_onMouseEnter s = s\<lparr>txt_isHovered := True\<rparr>"

definition txt_onMouseLeave :: "text_state \<Rightarrow> text_state" where
  "txt_onMouseLeave s = s\<lparr>txt_isHovered := False\<rparr>"

definition txt_showControls :: "text_state \<Rightarrow> bool" where
  "txt_showControls s = (txt_isHovered s \<or> txt_isDragging s \<or> txt_isSelected s)"

section \<open>TajmirTemplate: the element collections\<close>

record text_block =
  tb_id :: int
  tb_x :: real
  tb_y :: real

record image_block =
  ib_id :: int
  ib_src :: string
  ib_x :: real
  ib_y :: real

text \<open>
  The two \<^verbatim>\<open>useState\<close> lists, and the \<^verbatim>\<open>innerHTML\<close> of the editable regions that
  \<^verbatim>\<open>loadContent\<close> writes, by storage key.
\<close>

record template_state =
  textBlocks :: "text_block list"
  imageBlocks :: "image_block list"
  regions :: "string \<Rightarrow> string option"

definition TajmirTemplate_init :: template_state where
  "TajmirTemplate_init = \<lparr> textBlocks = [], imageBlocks = [], regions = (\<lambda>k. None) \<rparr>"

text \<open>
  The actions \<^verbatim>\<open>App\<close> builds: \<^verbatim>\<open>{type: 'ADD_TEXT', payload: Date.now()}\<close> and
  \<^verbatim>\<open>{type: 'ADD_IMAGE', payload: e.target.result}\<close>; \<open>None\<close> is \<^verbatim>\<open>null\<close>.
\<close>

datatype action = ADD_TEXT int | ADD_IMAGE string

text \<open>
  The action effect (lines 72 to 84).  \<open>now\<close> is what \<^verbatim>\<open>Date.now()\<close> returns when the
  effect runs.  A payload string is truthy when it is not empty.
\<close>

definition action_effect :: "int \<Rightarrow> action option \<Rightarrow> template_state \<Rightarrow> template_state" where
  "action_effect now a s =
     (case a of
        None \<Rightarrow> s
      | Some (ADD_TEXT payload) \<Rightarrow>
          s\<lparr>textBlocks := textBlocks s @ [\<lparr>tb_id = now, tb_x = 50, tb_y = 200\<rparr>]\<rparr>
      | Some (ADD_IMAGE payload) \<Rightarrow>
          if payload \<noteq> []
          then s\<lparr>imageBlocks :=
                   imageBlocks s @ [\<lparr>ib_id = now, ib_src = payload, ib_x = 50, ib_y = 200\<rparr>]\<rparr>
          else s)"

text \<open>A sequence of add commands, each with the clock reading of its effect.\<close>

fun add_commands :: "(int \<times> action) list \<Rightarrow> template_state \<Rightarrow> template_state" where
  "add_commands [] s = s"
| "add_commands ((now, a) # cs) s = add_commands cs (action_effect now (Some a) s)"

definition removeTextBlock :: "int \<Rightarrow> template_state \<Rightarrow> template_state" where
  "removeTextBlock i s = s\<lparr>textBlocks := filter (\<lambda>b. tb_id b \<noteq> i) (textBlocks s)\<rparr>"

definition removeImageBlock :: "int \<Rightarrow> template_state \<Rightarrow> template_state" where
  "removeImageBlock i s = s\<lparr>imageBlocks := filter (\<lambda>b. ib_id b \<noteq> i) (imageBlocks s)\<rparr>"

text \<open>The components rendered for the blocks: \<^verbatim>\<open>initialX={block.x} initialY={block.y}\<close>.\<close>

definition render_text :: "text_block \<Rightarrow> text_state" where
  "render_text b = DraggableText_init (tb_x b) (tb_y b)"

definition render_image :: "image_block \<Rightarrow> image_state" where
  "render_image b = DraggableImage_init (ib_src b) (ib_x b) (ib_y b)"

subsection \<open>Persistence (lines 34 to 69)\<close>

text \<open>A call into the browser either returns or throws.\<close>

datatype 'a outcome = Throws string | Returns 'a

text \<open>The values \<^verbatim>\<open>JSON.parse\<close> can return.\<close>

datatype json =
    JNull
  | JBool bool
  | JNum real
  | JStr string
  | JArr "json list"
  | JObj "(string \<times> json) list"

text \<open>The blocks as the values \<^verbatim>\<open>JSON.stringify\<close> writes.\<close>

definition text_block_json :: "text_block \<Rightarrow> json" where
  "text_block_json b =
     JObj [(''id'', JNum (of_int (tb_id b))), (''x'', JNum (tb_x b)), (''y'', JNum (tb_y b))]"

definition image_block_json :: "image_block \<Rightarrow> json" where
  "image_block_json b =
     JObj [(''id'', JNum (of_int (ib_id b))), (''src'', JStr (ib_src b)),
           (''x'', JNum (ib_x b)), (''y'', JNum (ib_y b))]"

text \<open>
  TypeScript types the two cells as arrays of blocks, but
  \<^verbatim>\<open>setTextBlocks(JSON.parse(saved))\<close> stores whatever value the record parses to.  The
  mount effect, the save effects and the rendering of the two layers are therefore
  written over the cells as JavaScript holds them, any JSON value each.
\<close>

record cells =
  textCell :: json
  imageCell :: json
  regionCells :: "string \<Rightarrow> string option"

definition cells_of :: "template_state \<Rightarrow> cells" where
  "cells_of s =
     \<lparr> textCell = JArr (map text_block_json (textBlocks s)),
       imageCell = JArr (map image_block_json (imageBlocks s)),
       regionCells = regions s \<rparr>"

text \<open>
  The storage is a parameter of the effects:
  \<^item> \<open>getItem k\<close> is \<^verbatim>\<open>localStorage.getItem(k)\<close>, \<open>Returns None\<close> for \<^verbatim>\<open>null\<close>;
  \<^item> \<open>parse\<close> is \<^verbatim>\<open>JSON.parse\<close>;
  \<^item> \<open>setItem k v\<close> is \<^verbatim>\<open>localStorage.setItem(k, JSON.stringify(v))\<close>.
\<close>

text \<open>\<^verbatim>\<open>loadContent(key, ref)\<close>; the ref is attached when the effect runs.\<close>

definition loadContent ::
  "(string \<Rightarrow> string option outcome) \<Rightarrow> string \<Rightarrow> cells \<Rightarrow> cells outcome" where
  "loadContent getItem key c =
     (case getItem key of
        Throws err \<Rightarrow> Throws err
      | Returns None \<Rightarrow> Returns c
      | Returns (Some saved) \<Rightarrow>
          if saved \<noteq> [] then Returns (c\<lparr>regionCells := (regionCells c)(key := Some saved)\<rparr>)
          else Returns c)"

fun loadContents ::
  "(string \<Rightarrow> string option outcome) \<Rightarrow> string list \<Rightarrow> cells \<Rightarrow> cells outcome" where
  "loadContents getItem [] c = Returns c"
| "loadContents getItem (k # ks) c =
     (case loadContent getItem k c of
        Throws err \<Rightarrow> Throws err
      | Returns c' \<Rightarrow> loadContents getItem ks c')"

definition content_keys :: "string list" where
  "content_keys =
     [''tajmir_doc_main_body'', ''tajmir_doc_header_h1'', ''tajmir_doc_header_h2'',
      ''tajmir_doc_header_sub'', ''tajmir_doc_footer_title'', ''tajmir_doc_footer_addr1'',
      ''tajmir_doc_footer_addr2'', ''tajmir_doc_footer_phone'']"

text \<open>
  \<^verbatim>\<open>const saved = localStorage.getItem(key); if (saved) set(JSON.parse(saved))\<close>, up
  to the call of the setter: the value to set if there is one, or the exception.  The
  empty string is falsy.
\<close>

definition read_record ::
  "(string \<Rightarrow> string option outcome) \<Rightarrow> (string \<Rightarrow> json outcome) \<Rightarrow> string
     \<Rightarrow> json option outcome" where
  "read_record getItem parse key =
     (case getItem key of
        Throws err \<Rightarrow> Throws err
      | Returns None \<Rightarrow> Returns None
      | Returns (Some saved) \<Rightarrow>
          if saved \<noteq> []
          then (case parse saved of
                  Throws err \<Rightarrow> Throws err
                | Returns v \<Rightarrow> Returns (Some v))
          else Returns None)"

text \<open>
  The body of the \<^verbatim>\<open>try\<close> block (lines 53 to 57): the cells reached, and the exception
  if one was thrown.  \<^verbatim>\<open>setTextBlocks\<close> has run when the second read throws.
\<close>

definition load_try ::
  "(string \<Rightarrow> string option outcome) \<Rightarrow> (string \<Rightarrow> json outcome) \<Rightarrow> cells
     \<Rightarrow> cells \<times> string option" where
  "load_try getItem parse c =
     (case read_record getItem parse ''tajmir_doc_draggables_text'' of
        Throws err \<Rightarrow> (c, Some err)
      | Returns r1 \<Rightarrow>
          (let c1 = (case r1 of None \<Rightarrow> c | Some v \<Rightarrow> c\<lparr>textCell := v\<rparr>)
           in case read_record getItem parse ''tajmir_doc_draggables_img'' of
                Throws err \<Rightarrow> (c1, Some err)
              | Returns r2 \<Rightarrow>
                  ((case r2 of None \<Rightarrow> c1 | Some v \<Rightarrow> c1\<lparr>imageCell := v\<rparr>), None)))"

text \<open>
  \<^verbatim>\<open>try { ... } catch(e) { console.error("Error loading blocks", e); }\<close>: the cells and
  the lines written to the console.
\<close>

definition load_draggables ::
  "(string \<Rightarrow> string option outcome) \<Rightarrow> (string \<Rightarrow> json outcome) \<Rightarrow> cells
     \<Rightarrow> cells \<times> string list" where
  "load_draggables getItem parse c =
     (case load_try getItem parse c of
        (c', None) \<Rightarrow> (c', [])
      | (c', Some err) \<Rightarrow> (c', [''Error loading blocks'' @ '' '' @ err]))"

text \<open>The whole mount effect: the eight \<^verbatim>\<open>loadContent\<close> calls, then the guarded block.\<close>

definition load_effect ::
  "(string \<Rightarrow> string option outcome) \<Rightarrow> (string \<Rightarrow> json outcome) \<Rightarrow> cells
     \<Rightarrow> (cells \<times> string list) outcome" where
  "load_effect getItem parse c =
     (case loadContents getItem content_keys c of
        Throws err \<Rightarrow> Throws err
      | Returns c' \<Rightarrow> Returns (load_draggables getItem parse c'))"



text \<open>
  Rendering a layer, \<^verbatim>\<open>imageBlocks.map(block => ...)\<close>: the items of an array; on
  any other value the call throws a \<^verbatim>\<open>TypeError\<close> (\<^verbatim>\<open>null\<close> has no properties, and no
  other JSON value has a \<^verbatim>\<open>map\<close> method).  The image layer is rendered first.
\<close>

definition map_blocks :: "json \<Rightarrow> json list outcome" where
  "map_blocks v = (case v of JArr items \<Rightarrow> Returns items | _ \<Rightarrow> Throws ''TypeError'')"

definition render_layers :: "cells \<Rightarrow> (json list \<times> json list) outcome" where
  "render_layers c =
     (case map_blocks (imageCell c) of
        Throws err \<Rightarrow> Throws err
      | Returns images \<Rightarrow>
          (case map_blocks (textCell c) of
             Throws err \<Rightarrow> Throws err
           | Returns texts \<Rightarrow> Returns (images, texts)))"

text \<open>
  Storages for the examples: one that refuses every read, an empty one, one that is
  full, one whose records are all the text of a broken JSON document, one with a good
  text record and a broken image record, and one whose records are all \<^verbatim>\<open>null\<close>.
  \<open>parse_example\<close> is \<^verbatim>\<open>JSON.parse\<close> on the three texts these storages hold.
\<close>

definition denied_getItem :: "string \<Rightarrow> string option outcome" where
  "denied_getItem k = Throws ''SecurityError''"





definition null_getItem :: "string \<Rightarrow> string option outcome" where
  "null_getItem k = Returns (Some ''null'')"

definition parse_example :: "string \<Rightarrow> json outcome" where
  "parse_example v =
     (if v = ''[]'' then Returns (JArr [])
      else if v = ''null'' then Returns JNull
      else Throws ''SyntaxError'')"

section \<open>App: the zoom value and the capture pipeline\<close>

text \<open>The \<^verbatim>\<open>useState\<close> cells of \<^verbatim>\<open>App\<close> that the pipeline reads and writes.\<close>

record app_state =
  zoom :: real
  isProcessing :: bool
  toastMsg :: "string option"

text \<open>
  \<^verbatim>\<open>handleExportPDF\<close> and \<^verbatim>\<open>handleCopyImage\<close> are \<^verbatim>\<open>async\<close> functions.  An invocation
  runs up to its first \<^verbatim>\<open>await\<close>, and is resumed by the event loop when the timer has
  elapsed and again when \<^verbatim>\<open>html2canvas\<close> has settled; other events run in between.  An
  invocation in flight is a task: which handler it is, the value of its local constant
  \<^verbatim>\<open>originalZoom\<close>, and where it is suspended.
\<close>

datatype kind = ExportPDF | CopyImage

datatype stage = AwaitDelay | AwaitCanvas | AwaitBlob | Finished

record task =
  t_kind :: kind
  originalZoom :: real
  t_stage :: stage

text \<open>The calls that leave the component, in the order they are made.\<close>

datatype effect =
    SetTimeout nat
  | Html2canvas nat
  | ConsoleError
  | PdfSave string
  | ToBlob
  | ClipboardWrite
  | Uncaught string

text \<open>
  A handler is a closure of the last render: the \<^verbatim>\<open>zoom\<close> it reads is the value
  rendered last (\<open>seen_zoom\<close>), and the \<^verbatim>\<open>isProcessing\<close> the toolbar got as a prop is
  \<open>seen_isProcessing\<close>, while \<open>app\<close> holds the state with every update made since.
  \<open>pageRef\<close> says that \<^verbatim>\<open>pageRef.current\<close> is not null.
\<close>

record world =
  app :: app_state
  seen_zoom :: real
  seen_isProcessing :: bool
  pageRef :: bool
  tasks :: "task list"
  effects :: "effect list"

definition render :: "world \<Rightarrow> world" where
  "render w = w\<lparr>seen_zoom := zoom (app w), seen_isProcessing := isProcessing (app w)\<rparr>"

text \<open>\<^verbatim>\<open>showToast\<close>: the message, and the timer that will clear it.\<close>

definition showToast :: "string \<Rightarrow> world \<Rightarrow> world" where
  "showToast msg w =
     w\<lparr>app := (app w)\<lparr>toastMsg := Some msg\<rparr>, effects := effects w @ [SetTimeout 3000]\<rparr>"

definition toast_expired :: "world \<Rightarrow> world" where
  "toast_expired w = w\<lparr>app := (app w)\<lparr>toastMsg := None\<rparr>\<rparr>"

subsection \<open>Zoom controls (App lines 35 to 42, LetterheadWorkspace lines 59 to 66)\<close>

definition handleZoomIn :: "world \<Rightarrow> world" where
  "handleZoomIn w =
     w\<lparr>app := (app w)\<lparr>zoom := min (js_add (zoom (app w)) (rnd (1 / 10))) 3\<rparr>\<rparr>"

definition handleZoomOut :: "world \<Rightarrow> world" where
  "handleZoomOut w =
     w\<lparr>app := (app w)\<lparr>zoom := max (js_sub (zoom (app w)) (rnd (1 / 10))) (rnd (1 / 5))\<rparr>\<rparr>"

definition handleZoomReset :: "world \<Rightarrow> world" where
  "handleZoomReset w = w\<lparr>app := (app w)\<lparr>zoom := 1\<rparr>\<rparr>"

definition handleZoomFit :: "real \<Rightarrow> world \<Rightarrow> world" where
  "handleZoomFit innerWidth w =
     (let fitScale = js_div (js_sub innerWidth 32) 794
      in w\<lparr>app := (app w)\<lparr>zoom := min (max fitScale (rnd (1 / 5))) 2\<rparr>\<rparr>)"

text \<open>The wheel handler of the workspace, for an event with the control or meta key held.\<close>

definition handleWheel :: "real \<Rightarrow> world \<Rightarrow> world" where
  "handleWheel deltaY w =
     (let delta = js_mul deltaY (- rnd (1 / 1000));
          newZoom = min (max (js_add (seen_zoom w) delta) (rnd (1 / 5))) 3
      in w\<lparr>app := (app w)\<lparr>zoom := newZoom\<rparr>\<rparr>)"

subsection \<open>The two entry points, up to the first await (lines 72 to 86 and 127 to 135)\<close>

definition start_capture :: "kind \<Rightarrow> world \<Rightarrow> world" where
  "start_capture k w =
     (if \<not> pageRef w then w
      else
        (let w1 = w\<lparr>app := (app w)\<lparr>isProcessing := True\<rparr>\<rparr>;
             original = seen_zoom w1;
             w2 = w1\<lparr>app := (app w1)\<lparr>zoom := 1\<rparr>\<rparr>
         in w2\<lparr>tasks := tasks w2 @ [\<lparr>t_kind = k, originalZoom = original, t_stage = AwaitDelay\<rparr>],
               effects := effects w2 @ [SetTimeout 300]\<rparr>))"

definition handleExportPDF :: "world \<Rightarrow> world" where
  "handleExportPDF w = start_capture ExportPDF w"

definition handleCopyImage :: "world \<Rightarrow> world" where
  "handleCopyImage w = start_capture CopyImage w"

text \<open>
  The toolbar's PDF button: \<^verbatim>\<open>onClick={onExportPDF} disabled={isProcessing}\<close>.  A
  disabled button dispatches no click.
\<close>

definition toolbar_pdf_click :: "world \<Rightarrow> world" where
  "toolbar_pdf_click w = (if seen_isProcessing w then w else handleExportPDF w)"

subsection \<open>Resuming an invocation\<close>

text \<open>The timer of task \<open>i\<close> has elapsed: \<^verbatim>\<open>html2canvas\<close> is called, scale 4 or 3.\<close>

definition capture_scale :: "kind \<Rightarrow> nat" where
  "capture_scale k = (case k of ExportPDF \<Rightarrow> 4 | CopyImage \<Rightarrow> 3)"

definition delay_elapsed :: "nat \<Rightarrow> world \<Rightarrow> world" where
  "delay_elapsed i w =
     (if i < length (tasks w) \<and> t_stage (tasks w ! i) = AwaitDelay
      then (let t = tasks w ! i
            in w\<lparr>tasks := (tasks w)[i := t\<lparr>t_stage := AwaitCanvas\<rparr>],
                 effects := effects w @ [Html2canvas (capture_scale (t_kind t))]\<rparr>)
      else w)"

text \<open>
  How the rest of the \<^verbatim>\<open>try\<close> block ends: the promise of \<^verbatim>\<open>html2canvas\<close> rejects (the
  rasterization threw), a later statement of the block throws (\<^verbatim>\<open>toDataURL\<close>, the
  \<^verbatim>\<open>jsPDF\<close> calls, \<^verbatim>\<open>toBlob\<close>), or the block runs to its end.
\<close>

datatype capture_outcome = Rejected | FinalizeThrew | Completed

definition failure_message :: "kind \<Rightarrow> string" where
  "failure_message k =
     (case k of ExportPDF \<Rightarrow> ''Failed to generate PDF'' | CopyImage \<Rightarrow> ''Failed to copy image'')"

text \<open>The \<^verbatim>\<open>try\<close> block after the capture, with its \<^verbatim>\<open>catch\<close>.\<close>

definition try_catch :: "kind \<Rightarrow> capture_outcome \<Rightarrow> world \<Rightarrow> world" where
  "try_catch k outc w =
     (case outc of
        Completed \<Rightarrow>
          (case k of
             ExportPDF \<Rightarrow>
               showToast ''PDF Downloaded successfully''
                 (w\<lparr>effects := effects w @ [PdfSave ''tajmir-group-document.pdf'']\<rparr>)
           | CopyImage \<Rightarrow> w\<lparr>effects := effects w @ [ToBlob]\<rparr>)
      | Rejected \<Rightarrow> showToast (failure_message k) (w\<lparr>effects := effects w @ [ConsoleError]\<rparr>)
      | FinalizeThrew \<Rightarrow> showToast (failure_message k) (w\<lparr>effects := effects w @ [ConsoleError]\<rparr>))"

text \<open>The \<^verbatim>\<open>finally\<close> block: \<^verbatim>\<open>setZoom(originalZoom); setIsProcessing(false)\<close>.\<close>

definition finally_block :: "task \<Rightarrow> world \<Rightarrow> world" where
  "finally_block t w = w\<lparr>app := (app w)\<lparr>zoom := originalZoom t, isProcessing := False\<rparr>\<rparr>"

definition next_stage :: "kind \<Rightarrow> capture_outcome \<Rightarrow> stage" where
  "next_stage k outc =
     (case outc of
        Completed \<Rightarrow> (case k of ExportPDF \<Rightarrow> Finished | CopyImage \<Rightarrow> AwaitBlob)
      | Rejected \<Rightarrow> Finished
      | FinalizeThrew \<Rightarrow> Finished)"

text \<open>\<^verbatim>\<open>html2canvas\<close> of task \<open>i\<close> has settled: the invocation runs to its end.\<close>

definition canvas_settled :: "nat \<Rightarrow> capture_outcome \<Rightarrow> world \<Rightarrow> world" where
  "canvas_settled i outc w =
     (if i < length (tasks w) \<and> t_stage (tasks w ! i) = AwaitCanvas
      then (let t = tasks w ! i;
                w1 = finally_block t (try_catch (t_kind t) outc w)
            in w1\<lparr>tasks := (tasks w1)[i := t\<lparr>t_stage := next_stage (t_kind t) outc\<rparr>]\<rparr>)
      else w)"

text \<open>
  The callback of \<^verbatim>\<open>canvas.toBlob\<close> (lines 143 to 151) runs after the handler has
  returned: the blob is null (the callback throws, outside every \<^verbatim>\<open>try\<close>), or the
  clipboard write resolves or rejects.
\<close>

datatype blob_outcome = BlobNull | WriteResolved | WriteRejected

definition blob_callback :: "nat \<Rightarrow> blob_outcome \<Rightarrow> world \<Rightarrow> world" where
  "blob_callback i b w =
     (if i < length (tasks w) \<and> t_stage (tasks w ! i) = AwaitBlob
      then (let w1 = w\<lparr>tasks := (tasks w)[i := (tasks w ! i)\<lparr>t_stage := Finished\<rparr>]\<rparr>
            in case b of
                 BlobNull \<Rightarrow> w1\<lparr>effects := effects w1 @ [Uncaught ''Canvas is empty'']\<rparr>
               | WriteResolved \<Rightarrow>
                   showToast ''Copied to clipboard!''
                     (w1\<lparr>effects := effects w1 @ [ClipboardWrite]\<rparr>)
               | WriteRejected \<Rightarrow>
                   showToast ''Clipboard write failed (browser limitation)''
                     (w1\<lparr>effects := effects w1 @ [ClipboardWrite]\<rparr>))
      else w)"

subsection \<open>Turns of the event loop\<close>

datatype step =
    Render
  | Call kind
  | ClickPDF
  | DelayElapsed nat
  | CanvasSettled nat capture_outcome
  | BlobCallback nat blob_outcome
  | ToastExpired
  | ZoomIn
  | ZoomOut
  | ZoomReset
  | ZoomFit real
  | Wheel real

fun exec_step :: "step \<Rightarrow> world \<Rightarrow> world" where
  "exec_step Render w = render w"
| "exec_step (Call k) w = start_capture k w"
| "exec_step ClickPDF w = toolbar_pdf_click w"
| "exec_step (DelayElapsed i) w = delay_elapsed i w"
| "exec_step (CanvasSettled i outc) w = canvas_settled i outc w"
| "exec_step (BlobCallback i b) w = blob_callback i b w"
| "exec_step ToastExpired w = toast_expired w"
| "exec_step ZoomIn w = handleZoomIn w"
| "exec_step ZoomOut w = handleZoomOut w"
| "exec_step ZoomReset w = handleZoomReset w"
| "exec_step (ZoomFit innerWidth) w = handleZoomFit innerWidth w"
| "exec_step (Wheel deltaY) w = handleWheel deltaY w"

fun exec :: "step list \<Rightarrow> world \<Rightarrow> world" where
  "exec [] w = w"
| "exec (a # as) w = exec as (exec_step a w)"

text \<open>Does a step settle the capture of task \<open>n\<close>?\<close>

fun settles :: "nat \<Rightarrow> step \<Rightarrow> bool" where
  "settles n (CanvasSettled i outc) = (i = n)"
| "settles n a = False"

text \<open>The application as mounted: zoom 1, nothing in flight, the page attached.\<close>

definition App_init :: world where
  "App_init =
     \<lparr> app = \<lparr> zoom = 1, isProcessing = False, toastMsg = None \<rparr>,
       seen_zoom = 1,
       seen_isProcessing = False,
       pageRef = True,
       tasks = [],
       effects = [] \<rparr>"

text \<open>The \<^verbatim>\<open>html2canvas\<close> calls among the effects.\<close>

fun is_capture :: "effect \<Rightarrow> bool" where
  "is_capture (Html2canvas sc) = True"
| "is_capture e = False"

definition captures :: "world \<Rightarrow> nat" where
  "captures w = length (filter is_capture (effects w))"

section \<open>Auxiliary notions for the proofs\<close>

text \<open>
  Task \<open>n\<close> is in flight with \<^verbatim>\<open>originalZoom\<close> equal to \<open>z\<close>: suspended at the timer
  or at the capture.  It is capturing when \<^verbatim>\<open>html2canvas\<close> has been called and has
  not settled.
\<close>

definition in_flight :: "nat \<Rightarrow> real \<Rightarrow> world \<Rightarrow> bool" where
  "in_flight n z w =
     (n < length (tasks w) \<and> originalZoom (tasks w ! n) = z
      \<and> (t_stage (tasks w ! n) = AwaitDelay \<or> t_stage (tasks w ! n) = AwaitCanvas))"

definition capturing :: "nat \<Rightarrow> real \<Rightarrow> world \<Rightarrow> bool" where
  "capturing n z w =
     (n < length (tasks w) \<and> originalZoom (tasks w ! n) = z
      \<and> t_stage (tasks w ! n) = AwaitCanvas)"

text \<open>
  Pointer events for the examples: one on a control button (the Move handle), one
  outside the element and its controls.
\<close>

definition on_handle :: "real \<Rightarrow> real \<Rightarrow> pointer_event" where
  "on_handle px py =
     \<lparr> clientX = px, clientY = py, in_container = True, in_control_btn = True,
       in_tool_panel = False \<rparr>"

definition outside :: "real \<Rightarrow> real \<Rightarrow> pointer_event" where
  "outside px py =
     \<lparr> clientX = px, clientY = py, in_container = False, in_control_btn = False,
       in_tool_panel = False \<rparr>"

text \<open>An image element that was clicked and whose background-removal panel was opened.\<close>

definition selected_with_panel :: image_state where
  "selected_with_panel = toggleMagic (handleContainerClick (DraggableImage_init ''img'' 50 200))"

text \<open>Which add commands reach which collection.\<close>

fun adds_text :: "int \<times> action \<Rightarrow> bool" where
  "adds_text (now, ADD_TEXT payload) = True"
| "adds_text (now, ADD_IMAGE payload) = False"

fun adds_image :: "int \<times> action \<Rightarrow> bool" where
  "adds_image (now, ADD_TEXT payload) = False"
| "adds_image (now, ADD_IMAGE payload) = (payload \<noteq> [])"

text \<open>The application shown at zoom 1.75, idle.\<close>

definition zoomed_world :: world where
  "zoomed_world = App_init\<lparr>app := (app App_init)\<lparr>zoom := 1.75\<rparr>, seen_zoom := 1.75\<rparr>"

text \<open>
  A resize is in progress from the snapshot \<open>sd\<close> and the pointer-down point \<open>st\<close>,
  and no drag is.
\<close>

definition resizing_from :: "start_dim \<Rightarrow> pos \<Rightarrow> image_state \<Rightarrow> bool" where
  "resizing_from sd st s =
     (isResizing s \<and> \<not> isDragging s \<and> startDimRef s = Some sd \<and> dragStartRef s = Some st)"




text \<open>
  The bound of magnitude under which the arithmetic of the handlers stays finite, for a
  number, for a point, and for a pointer event with a recorded point and a position.
\<close>

definition in_range :: "real \<Rightarrow> bool" where
  "in_range x = (\<bar>x\<bar> \<le> 2 ^ 1000)"

definition pos_in_range :: "pos \<Rightarrow> bool" where
  "pos_in_range p = (in_range (pos_x p) \<and> in_range (pos_y p))"

definition move_in_range :: "pointer_event \<Rightarrow> pos \<Rightarrow> pos \<Rightarrow> bool" where
  "move_in_range e st p =
     (in_range (clientX e) \<and> in_range (clientY e) \<and> pos_in_range st \<and> pos_in_range p)"

text \<open>A zoom and a pointer event of a resize, both within bounds.\<close>

fun resize_move_ok :: "real \<times> pointer_event \<Rightarrow> bool" where
  "resize_move_ok (z, e) =
     (0.2 \<le> z \<and> z \<le> 3 \<and> in_range (clientX e) \<and> in_range (clientY e))"

text \<open>The attributes \<^verbatim>\<open>min="0" max="50"\<close> the four crop inputs carry.\<close>

definition crop_input_min :: real where
  "crop_input_min = 0"

definition crop_input_max :: real where
  "crop_input_max = 50"

definition within_crop_bounds :: "real \<Rightarrow> bool" where
  "within_crop_bounds v = (crop_input_min \<le> v \<and> v \<le> crop_input_max)"

section \<open>Properties\<close>

subsection \<open>Doubles\<close>

text \<open>
  The exponent search finds the binade of its argument, and \<open>rnd\<close> is a rounding to
  nearest: its result is a multiple of the spacing at most half a spacing away, and a
  number that is a result of \<open>rnd\<close> is left as it is.
\<close>

lemma pow2_powr: "pow2 e = 2 powr (of_int e)"
proof (cases "0 \<le> e")
  case True
  then have "2 powr (of_int e) = (2::real) powr (real (nat e))" by simp
  also have "\<dots> = 2 ^ nat e" by (simp add: powr_realpow)
  finally show ?thesis using True by (simp add: pow2_def)
next
  case False
  then have "2 powr (of_int e) = (2::real) powr (- real (nat (- e)))" by simp
  also have "\<dots> = 1 / 2 ^ nat (- e)" by (simp add: powr_minus powr_realpow divide_inverse)
  finally show ?thesis using False by (simp add: pow2_def)
qed

lemma pow2_pos: "0 < pow2 e"
  by (simp add: pow2_powr)

lemma pow2_add: "pow2 (a + b) = pow2 a * pow2 b"
  by (simp add: pow2_powr powr_add)

lemma pow2_mono: "a \<le> b \<Longrightarrow> pow2 a \<le> pow2 b"
  by (simp add: pow2_powr)

lemma pow2_less_iff: "pow2 a < pow2 b \<longleftrightarrow> a < b"
  by (simp add: pow2_powr)

lemma pow2_le_iff: "pow2 a \<le> pow2 b \<longleftrightarrow> a \<le> b"
  by (simp add: pow2_powr)

lemma pow2_nat: "0 \<le> e \<Longrightarrow> pow2 e = of_int (2 ^ nat e)"
  by (simp add: pow2_def)

lemma expo_up_bounds:
  "e \<le> 1023 \<Longrightarrow> pow2 e \<le> a \<Longrightarrow>
   e \<le> expo_up e a \<and> expo_up e a \<le> 1023 \<and> pow2 (expo_up e a) \<le> a
     \<and> (expo_up e a < 1023 \<longrightarrow> a < pow2 (expo_up e a + 1))"
proof (induction e a rule: expo_up.induct)
  case (1 e a)
  show ?case
  proof (cases "e < 1023 \<and> pow2 (e + 1) \<le> a")
    case True
    then have "expo_up e a = expo_up (e + 1) a" by (subst expo_up.simps) simp
    moreover have "e + 1 \<le> expo_up (e + 1) a \<and> expo_up (e + 1) a \<le> 1023
       \<and> pow2 (expo_up (e + 1) a) \<le> a
       \<and> (expo_up (e + 1) a < 1023 \<longrightarrow> a < pow2 (expo_up (e + 1) a + 1))"
      using "1.IH" True by simp
    ultimately show ?thesis by simp
  next
    case False
    then have "expo_up e a = e" by (subst expo_up.simps) auto
    with False "1.prems" show ?thesis by auto
  qed
qed

lemma expo_down_bounds:
  "- 1022 \<le> e \<Longrightarrow> a < pow2 (e + 1) \<Longrightarrow>
   - 1022 \<le> expo_down e a \<and> expo_down e a \<le> e \<and> a < pow2 (expo_down e a + 1)
     \<and> (- 1022 < expo_down e a \<longrightarrow> pow2 (expo_down e a) \<le> a)"
proof (induction e a rule: expo_down.induct)
  case (1 e a)
  show ?case
  proof (cases "- 1022 < e \<and> a < pow2 e")
    case True
    then have "expo_down e a = expo_down (e - 1) a" by (subst expo_down.simps) simp
    moreover have "- 1022 \<le> expo_down (e - 1) a \<and> expo_down (e - 1) a \<le> e - 1
       \<and> a < pow2 (expo_down (e - 1) a + 1)
       \<and> (- 1022 < expo_down (e - 1) a \<longrightarrow> pow2 (expo_down (e - 1) a) \<le> a)"
      using "1.IH" True by simp
    ultimately show ?thesis by simp
  next
    case False
    then have "expo_down e a = e" by (subst expo_down.simps) auto
    with False "1.prems" show ?thesis by auto
  qed
qed

lemma expo_range: "- 1022 \<le> expo x \<and> expo x \<le> 1023"
proof (cases "\<bar>x\<bar> < 1")
  case True
  then have "\<bar>x\<bar> < pow2 (0 + 1)" by (simp add: pow2_def)
  then show ?thesis using expo_down_bounds [of 0 "\<bar>x\<bar>"] True by (simp add: expo_def)
next
  case False
  then have "pow2 0 \<le> \<bar>x\<bar>" by (simp add: pow2_def)
  then show ?thesis using expo_up_bounds [of 0 "\<bar>x\<bar>"] False by (simp add: expo_def)
qed

lemma expo_lower: "- 1022 < expo x \<Longrightarrow> pow2 (expo x) \<le> \<bar>x\<bar>"
proof (cases "\<bar>x\<bar> < 1")
  case True
  assume "- 1022 < expo x"
  moreover from True have "\<bar>x\<bar> < pow2 (0 + 1)" by (simp add: pow2_def)
  ultimately show ?thesis using expo_down_bounds [of 0 "\<bar>x\<bar>"] True by (simp add: expo_def)
next
  case False
  then have "pow2 0 \<le> \<bar>x\<bar>" by (simp add: pow2_def)
  then show ?thesis using expo_up_bounds [of 0 "\<bar>x\<bar>"] False by (simp add: expo_def)
qed

lemma expo_upper: "expo x < 1023 \<Longrightarrow> \<bar>x\<bar> < pow2 (expo x + 1)"
proof (cases "\<bar>x\<bar> < 1")
  case True
  then have "\<bar>x\<bar> < pow2 (0 + 1)" by (simp add: pow2_def)
  then show ?thesis using expo_down_bounds [of 0 "\<bar>x\<bar>"] True by (simp add: expo_def)
next
  case False
  assume "expo x < 1023"
  moreover from False have "pow2 0 \<le> \<bar>x\<bar>" by (simp add: pow2_def)
  ultimately show ?thesis using expo_up_bounds [of 0 "\<bar>x\<bar>"] False by (simp add: expo_def)
qed

lemma round_even_int: "round_even (of_int n) = n"
  by (simp add: round_even_def)

lemma round_even_between: "\<lfloor>y\<rfloor> \<le> round_even y \<and> round_even y \<le> \<lceil>y\<rceil>"
  unfolding round_even_def Let_def by (auto simp: ceiling_altdef)



lemma rnd_of_multiple:
  assumes "y = of_int n * pow2 (expo y - 52)"
  shows "rnd y = y"
proof -
  have "y / pow2 (expo y - 52) = of_int n"
    using assms pow2_pos [of "expo y - 52"] by (simp add: field_simps)
  then show ?thesis
    using assms by (simp add: rnd_def Let_def round_even_int)
qed

lemma round_even_abs_le:
  assumes "\<bar>t\<bar> \<le> of_int N"
  shows "\<bar>round_even t\<bar> \<le> N"
proof -
  have "t \<le> of_int N" "- of_int N \<le> t" using assms by linarith+
  then have "\<lceil>t\<rceil> \<le> N" "- N \<le> \<lfloor>t\<rfloor>"
    by (simp_all add: ceiling_le_iff le_floor_iff)
  then show ?thesis using round_even_between [of t] by linarith
qed

lemma pow2_shift53: "pow2 (e + 1) = 2 ^ 53 * pow2 (e - 52)"
proof -
  have "pow2 (e + 1) = pow2 (53 + (e - 52))" by (rule arg_cong [where f = pow2]) simp
  also have "\<dots> = pow2 53 * pow2 (e - 52)" by (rule pow2_add)
  also have "pow2 53 = 2 ^ 53" by (simp add: pow2_def)
  finally show ?thesis .
qed

lemma pow2_double: "pow2 (e + 1) = 2 * pow2 e"
proof -
  have "pow2 1 = 2" by (simp add: pow2_def)
  then show ?thesis using pow2_add [of e 1] by simp
qed

lemma rnd_idem: "rnd (rnd x) = rnd x"
proof -
  define e where "e = expo x"
  define u where "u = pow2 (e - 52)"
  define k where "k = round_even (x / u)"
  define y where "y = of_int k * u"
  define e' where "e' = expo y"
  have y: "rnd x = y" by (simp add: rnd_def Let_def y_def k_def u_def e_def)
  have upos: "0 < u" by (simp add: u_def pow2_pos)
  have "\<exists>n. y = of_int n * pow2 (e' - 52)"
  proof (cases "e' \<le> e")
    case True
    have "u = pow2 (e - e') * pow2 (e' - 52)"
      unfolding u_def by (simp add: pow2_add [symmetric])
    also have "pow2 (e - e') = of_int (2 ^ nat (e - e'))"
      using True by (simp add: pow2_nat)
    finally have "y = of_int (k * 2 ^ nat (e - e')) * pow2 (e' - 52)"
      by (simp add: y_def)
    then show ?thesis by blast
  next
    case False
    then have lt: "e < e'" by simp
    have "e' \<le> 1023" "- 1022 \<le> e" using expo_range by (simp_all add: e'_def e_def)
    with lt have e1: "e < 1023" and e2: "- 1022 < e'" by simp_all
    have "\<bar>x\<bar> < pow2 (e + 1)" using expo_upper e1 by (simp add: e_def)
    also have "pow2 (e + 1) = 2 ^ 53 * u"
      by (simp only: u_def pow2_shift53)
    finally have "\<bar>x / u\<bar> \<le> of_int (2 ^ 53)"
      using upos by (simp add: field_simps)
    then have kle: "\<bar>k\<bar> \<le> 2 ^ 53" unfolding k_def by (rule round_even_abs_le)
    have "pow2 e' \<le> \<bar>y\<bar>" using expo_lower e2 by (simp add: e'_def)
    also have "\<bar>y\<bar> = of_int \<bar>k\<bar> * u" using upos by (simp add: y_def abs_mult)
    finally have low: "pow2 e' \<le> of_int \<bar>k\<bar> * u" .
    also have "\<dots> \<le> 2 ^ 53 * u"
      using kle upos by (simp add: mult_right_mono of_int_le_numeral_power_cancel_iff)
    also have "\<dots> = pow2 (e + 1)"
      by (simp only: u_def pow2_shift53)
    finally have "e' \<le> e + 1" by (simp add: pow2_le_iff)
    with lt have e': "e' = e + 1" by simp
    have "pow2 e' = 2 ^ 53 * u"
      by (simp only: u_def e' pow2_shift53)
    with low upos have "(2::real) ^ 53 \<le> of_int \<bar>k\<bar>" by simp
    then have "2 ^ 53 \<le> \<bar>k\<bar>" by (simp add: numeral_power_le_of_int_cancel_iff)
    with kle have "\<bar>k\<bar> = 2 ^ 53" by simp
    then have "2 dvd \<bar>k\<bar>" by simp
    then have "2 dvd k" by (simp only: dvd_abs_iff)
    then have "k = 2 * (k div 2)" by simp
    then have "real_of_int k = 2 * real_of_int (k div 2)"
      by (metis of_int_mult of_int_numeral)
    moreover have "u = pow2 (e' - 52) / 2"
      using pow2_double [of "e - 52"] by (simp add: u_def e')
    ultimately have "y = of_int (k div 2) * pow2 (e' - 52)"
      unfolding y_def by simp
    then show ?thesis by blast
  qed
  then obtain n where "y = of_int n * pow2 (expo y - 52)" by (auto simp: e'_def)
  then have "rnd y = y" by (rule rnd_of_multiple)
  then show ?thesis by (simp add: y)
qed


lemma round_even_near: "\<bar>of_int (round_even t) - t\<bar> \<le> 1 / 2"
  unfolding round_even_def Let_def by (auto simp: abs_if) linarith+

lemma rnd_near: "\<bar>rnd x - x\<bar> \<le> pow2 (expo x - 52) / 2"
proof -
  define u where "u = pow2 (expo x - 52)"
  have upos: "0 < u" by (simp add: u_def pow2_pos)
  have "rnd x - x = (of_int (round_even (x / u)) - x / u) * u"
    using upos by (simp add: rnd_def Let_def u_def field_simps)
  then have "\<bar>rnd x - x\<bar> = \<bar>of_int (round_even (x / u)) - x / u\<bar> * u"
    using upos by (simp add: abs_mult)
  also have "\<dots> \<le> 1 / 2 * u"
    using round_even_near [of "x / u"] upos by (simp add: mult_right_mono)
  finally show ?thesis by (simp add: u_def)
qed

lemmas js_eval = rnd_def expo_def expo_up.simps expo_down.simps pow2_def round_even_def Let_def
  js_add_def js_sub_def js_mul_def js_div_def

lemma rnd_zero: "rnd 0 = 0"
  by (simp add: rnd_def round_even_def)

lemma js_div_one: "js_div (js_sub a b) 1 = js_sub a b"
  by (simp add: js_div_def js_sub_def rnd_idem)

subsection \<open>The capture pipeline\<close>

lemmas step_defs = render_def start_capture_def toolbar_pdf_click_def handleExportPDF_def
  delay_elapsed_def canvas_settled_def blob_callback_def toast_expired_def handleZoomIn_def
  handleZoomOut_def handleZoomReset_def handleZoomFit_def handleWheel_def showToast_def
  try_catch_def finally_block_def

lemma exec_append: "exec (xs @ ys) w = exec ys (exec xs w)"
  by (induction xs arbitrary: w) auto

text \<open>
  The zoom controls clamp: zooming in stays at or below 3, zooming out at or above the
  double of 0.2, and the fit and the wheel within both bounds.
\<close>

lemma zoom_controls_clamp:
  "zoom (app (handleZoomIn w)) \<le> 3
   \<and> rnd (1 / 5) \<le> zoom (app (handleZoomOut w))
   \<and> zoom (app (handleZoomReset w)) = 1
   \<and> rnd (1 / 5) \<le> zoom (app (handleZoomFit iw w)) \<and> zoom (app (handleZoomFit iw w)) \<le> 2
   \<and> rnd (1 / 5) \<le> zoom (app (handleWheel dy w)) \<and> zoom (app (handleWheel dy w)) \<le> 3"
proof -
  have "rnd (1 / 5) = 3602879701896397 / 18014398509481984"
    by (simp add: rnd_def expo_def expo_up.simps expo_down.simps pow2_def round_even_def Let_def)
  then have "rnd (1 / 5) \<le> 2" "rnd (1 / 5) \<le> 3" by simp_all
  then show ?thesis
    by (simp add: handleZoomIn_def handleZoomOut_def handleZoomReset_def handleZoomFit_def
          handleWheel_def Let_def)
qed

lemma start_in_flight:
  "pageRef w \<Longrightarrow> in_flight (length (tasks w)) (seen_zoom w) (start_capture k w)"
  by (simp add: in_flight_def start_capture_def Let_def)

text \<open>
  No turn of the event loop other than the settling of its own capture changes the
  \<^verbatim>\<open>originalZoom\<close> of a task or moves it backwards.
\<close>

lemma step_in_flight:
  "in_flight n z w \<Longrightarrow> \<not> settles n a \<Longrightarrow> in_flight n z (exec_step a w)"
  by (cases a)
     (auto simp: in_flight_def step_defs Let_def nth_append nth_list_update
           split: capture_outcome.splits kind.splits blob_outcome.splits)

lemma step_capturing:
  "capturing n z w \<Longrightarrow> \<not> settles n a \<Longrightarrow> capturing n z (exec_step a w)"
  by (cases a)
     (auto simp: capturing_def step_defs Let_def nth_append nth_list_update
           split: capture_outcome.splits kind.splits blob_outcome.splits)

lemma delay_capturing:
  "in_flight n z w \<Longrightarrow> capturing n z (delay_elapsed n w)"
  by (auto simp: in_flight_def capturing_def delay_elapsed_def Let_def)

lemma exec_capturing:
  "capturing n z w \<Longrightarrow> list_all (\<lambda>a. \<not> settles n a) mid \<Longrightarrow> capturing n z (exec mid w)"
  by (induction mid arbitrary: w) (auto simp: step_capturing)

lemma exec_in_flight:
  "in_flight n z w \<Longrightarrow> list_all (\<lambda>a. \<not> settles n a) mid \<Longrightarrow> DelayElapsed n \<in> set mid
   \<Longrightarrow> capturing n z (exec mid w)"
proof (induction mid arbitrary: w)
  case Nil
  then show ?case by simp
next
  case (Cons a mid)
  show ?case
  proof (cases "a = DelayElapsed n")
    case True
    with Cons.prems have "capturing n z (exec_step a w)"
      by (simp add: delay_capturing)
    with Cons.prems show ?thesis
      by (simp add: exec_capturing)
  next
    case False
    with Cons.prems have "in_flight n z (exec_step a w)" "DelayElapsed n \<in> set mid"
      by (simp_all add: step_in_flight)
    with Cons.prems Cons.IH show ?thesis
      by simp
  qed
qed

lemma settle_restores:
  "capturing n z w \<Longrightarrow> zoom (app (canvas_settled n outc w)) = z
     \<and> \<not> isProcessing (app (canvas_settled n outc w))"
  by (auto simp: capturing_def canvas_settled_def Let_def finally_block_def)

text \<open>
  Claim C1.  Take any state of the application in which the page is attached, and invoke
  the PDF export or the clipboard copy (\<open>Call k\<close>); the invocation becomes task \<open>n\<close>.
  Let any turns of the event loop follow (renders, zoom changes, other invocations and
  their resumptions), among them the elapsing of the task's timer, and then let the
  capture of the task settle in any way: resolved, rejected because the rasterization
  threw, or followed by a throwing statement.  When the handler has returned, the zoom
  is the value the handler read when it was invoked (\<open>seen_zoom\<close>, the zoom on screen),
  and the busy flag is false.  When the page is not attached the invocation changes
  nothing.
\<close>

theorem capture_restores_zoom_and_busy:
  "(pageRef w \<and> n = length (tasks w) \<and> DelayElapsed n \<in> set mid
      \<and> list_all (\<lambda>a. \<not> settles n a) mid
    \<longrightarrow> zoom (app (exec (Call k # mid @ [CanvasSettled n outc]) w)) = seen_zoom w
        \<and> \<not> isProcessing (app (exec (Call k # mid @ [CanvasSettled n outc]) w)))
   \<and> (\<not> pageRef w \<longrightarrow> exec [Call k] w = w)"
proof (intro conjI impI)
  assume a: "pageRef w \<and> n = length (tasks w) \<and> DelayElapsed n \<in> set mid
      \<and> list_all (\<lambda>a. \<not> settles n a) mid"
  then have "in_flight n (seen_zoom w) (start_capture k w)"
    using start_in_flight [of w k] by blast
  moreover from a have "list_all (\<lambda>a. \<not> settles n a) mid" and "DelayElapsed n \<in> set mid"
    by blast+
  ultimately have "capturing n (seen_zoom w) (exec mid (start_capture k w))"
    by (rule exec_in_flight)
  then have "zoom (app (canvas_settled n outc (exec mid (start_capture k w)))) = seen_zoom w
     \<and> \<not> isProcessing (app (canvas_settled n outc (exec mid (start_capture k w))))"
    by (rule settle_restores)
  then show "zoom (app (exec (Call k # mid @ [CanvasSettled n outc]) w)) = seen_zoom w"
    and "\<not> isProcessing (app (exec (Call k # mid @ [CanvasSettled n outc]) w))"
    by (simp_all add: exec_append)
next
  assume "\<not> pageRef w"
  then show "exec [Call k] w = w"
    by (simp add: start_capture_def)
qed

text \<open>
  An export at zoom 1.75 whose rasterization is rejected, with a render and a zoom-in
  while it runs: the zoom is 1 and the flag is set during the capture, and the zoom is
  1.75 again and the flag cleared at the end.
\<close>

theorem capture_restores_zoom_and_busy_witness:
  "zoom (app (exec [Call ExportPDF, Render, DelayElapsed 0, ZoomIn, CanvasSettled 0 Rejected]
                zoomed_world)) = 1.75
   \<and> \<not> isProcessing (app (exec [Call ExportPDF, Render, DelayElapsed 0, ZoomIn,
                                  CanvasSettled 0 Rejected] zoomed_world))
   \<and> zoom (app (exec [Call ExportPDF, Render, DelayElapsed 0] zoomed_world)) = 1
   \<and> isProcessing (app (exec [Call ExportPDF, Render, DelayElapsed 0] zoomed_world))"
  using capture_restores_zoom_and_busy
          [of zoomed_world 0 "[Render, DelayElapsed 0, ZoomIn]" ExportPDF Rejected]
  by (simp add: zoomed_world_def App_init_def start_capture_def render_def delay_elapsed_def
        Let_def capture_scale_def)

text \<open>
  Claim C2 as stated fails: the entry points do not read the busy flag.  Two invocations
  of the export in one turn start two tasks, and each of them calls \<^verbatim>\<open>html2canvas\<close>;
  both captures are pending at the same time.
\<close>

theorem double_invocation_two_captures:
  "captures (exec [Call ExportPDF, Call ExportPDF, Render, DelayElapsed 0, DelayElapsed 1]
               App_init) = 2
   \<and> map t_stage (tasks (exec [Call ExportPDF, Call ExportPDF, Render, DelayElapsed 0,
                                 DelayElapsed 1] App_init)) = [AwaitCanvas, AwaitCanvas]"
  by (simp add: App_init_def start_capture_def render_def delay_elapsed_def Let_def
        capture_scale_def captures_def)

text \<open>
  Claim C2, amended.  The gate is the toolbar's PDF button, disabled while the rendered
  busy flag is set: a click on it is then a no-op, and of two clicks with a render in
  between only the first starts a capture.  An entry point invoked directly with the
  page attached starts a capture sequence of its own and sets the busy flag, whatever
  the flag was.
\<close>

theorem busy_gate_is_the_button:
  "(seen_isProcessing w \<longrightarrow> toolbar_pdf_click w = w)
   \<and> (pageRef w \<longrightarrow> length (tasks (start_capture k w)) = Suc (length (tasks w))
         \<and> isProcessing (app (start_capture k w)))
   \<and> (pageRef w \<and> \<not> seen_isProcessing w \<longrightarrow>
         exec [ClickPDF, Render, ClickPDF] w = exec [ClickPDF, Render] w
         \<and> length (tasks (exec [ClickPDF, Render, ClickPDF] w)) = Suc (length (tasks w)))"
  by (auto simp: toolbar_pdf_click_def start_capture_def handleExportPDF_def render_def Let_def)

theorem busy_gate_is_the_button_witness:
  "captures (exec [ClickPDF, Render, ClickPDF, DelayElapsed 0, DelayElapsed 1] App_init) = 1
   \<and> length (tasks (start_capture CopyImage (render (start_capture ExportPDF App_init)))) = 2
   \<and> seen_isProcessing (render (start_capture ExportPDF App_init))
   \<and> toolbar_pdf_click (render (start_capture ExportPDF App_init))
       = render (start_capture ExportPDF App_init)"
  using busy_gate_is_the_button [of "render (start_capture ExportPDF App_init)" CopyImage]
        busy_gate_is_the_button [of App_init ExportPDF]
  by (simp add: App_init_def start_capture_def render_def delay_elapsed_def Let_def
        capture_scale_def captures_def toolbar_pdf_click_def handleExportPDF_def)

subsection \<open>Background removal\<close>

text \<open>
  On the numbers.  The cut-off and the brightness are computed over the reals here,
  without rounding.  For an integer threshold \<open>t\<close> in 0..100 and byte channels, the
  brightness and the cut-off differ by a multiple of 1/60: they are equal or far apart
  compared with the rounding of double arithmetic.  They can be equal only when \<open>t\<close> is
  a multiple of 20; for 20, 40, 60 and 80 the product \<^verbatim>\<open>threshold * 2.55\<close> is exact in
  doubles, and for 100 the computed cut-off is a tiny positive number where the exact
  one is 0, with no brightness between the two.  So the comparison over the reals
  decides as the one the browser computes.
\<close>

lemma length_removeLoop: "length (removeLoop th i d) = length d"
proof (induction th i d rule: removeLoop.induct)
  case (1 thresh i d)
  show ?case
  proof (cases "i < length d")
    case True
    with "1" show ?thesis by (subst removeLoop.simps) simp
  next
    case False
    then show ?thesis by (subst removeLoop.simps) simp
  qed
qed

lemma byte_at_update: "m \<noteq> k \<Longrightarrow> byte_at (d[k := v]) m = byte_at d m"
  by (simp add: byte_at_def)

lemma brightness_update:
  assumes "k \<noteq> i" "k \<noteq> i + 1" "k \<noteq> i + 2"
  shows "brightness (d[k := v]) i = brightness d i"
proof -
  have eqs: "byte_at (d[k := v]) i = byte_at d i"
    "byte_at (d[k := v]) (i + 1) = byte_at d (i + 1)"
    "byte_at (d[k := v]) (i + 2) = byte_at d (i + 2)"
    using assms by (simp_all add: byte_at_update)
  show ?thesis
    unfolding brightness_def eqs by (rule refl)
qed

lemma removeLoop_nth:
  "i mod 4 = 0 \<Longrightarrow> j < length d \<Longrightarrow>
   removeLoop th i d ! j =
     (if i \<le> j \<and> j mod 4 = 3 \<and> exceeds (brightness d (j - 3)) th then 0 else d ! j)"
proof (induction th i d arbitrary: j rule: removeLoop.induct)
  case (1 thresh i d)
  show ?case
  proof (cases "i < length d")
    case False
    with "1.prems" show ?thesis by (subst removeLoop.simps) simp
  next
    case True
    define d' where "d' = (if exceeds (brightness d i) thresh then d[i + 3 := 0] else d)"
    have len: "length d' = length d" by (simp add: d'_def)
    have step: "removeLoop thresh i d = removeLoop thresh (i + 4) d'"
      using True by (subst removeLoop.simps) (simp add: d'_def)
    have m4: "(i + 4) mod 4 = 0" using "1.prems"(1) by presburger
    have IH: "removeLoop thresh (i + 4) d' ! j =
       (if i + 4 \<le> j \<and> j mod 4 = 3 \<and> exceeds (brightness d' (j - 3)) thresh then 0 else d' ! j)"
      using "1.IH" [OF True m4, of j] "1.prems"(2) len by (simp add: d'_def)
    show ?thesis
    proof (cases "i + 4 \<le> j \<and> j mod 4 = 3")
      case far: True
      then have "i + 3 \<noteq> j - 3" "i + 3 \<noteq> j - 3 + 1" "i + 3 \<noteq> j - 3 + 2" "j \<noteq> i + 3"
        using "1.prems"(1) by presburger+
      then have "brightness d' (j - 3) = brightness d (j - 3)" "d' ! j = d ! j"
        by (simp_all add: d'_def brightness_update)
      with far show ?thesis
        unfolding step IH by simp
    next
      case near: False
      show ?thesis
      proof (cases "j = i + 3")
        case True
        then have "j mod 4 = 3" "i \<le> j" "j - 3 = i" "\<not> i + 4 \<le> j" using "1.prems"(1) by presburger+
        then show ?thesis
          unfolding step IH using True "1.prems"(2) by (simp add: d'_def)
      next
        case False
        then have "d' ! j = d ! j" by (simp add: d'_def)
        moreover have "\<not> (i \<le> j \<and> j mod 4 = 3)"
          using near False "1.prems"(1) by presburger
        ultimately show ?thesis
          unfolding step IH using near by auto
      qed
    qed
  qed
qed

lemma brightness_pixel:
  "4 * p + 3 < length (r_data img) \<Longrightarrow>
   brightness (r_data img) (4 * p) = Some (rgb_average (pixel img p))"
  by (simp add: brightness_def byte_at_def pixel_def)

lemma remove_background_nth:
  "j < length (r_data img) \<Longrightarrow>
   r_data (remove_background t img) ! j =
     (if j mod 4 = 3 \<and> exceeds (brightness (r_data img) (j - 3)) (thresh_of t) then 0
      else r_data img ! j)"
  by (simp add: remove_background_def removeLoop_nth)

lemma remove_background_pixel:
  assumes "4 * p + 3 < length (r_data img)"
  shows "pixel (remove_background t img) p =
     (if 255 - real_of_int t * 2.55 < rgb_average (pixel img p)
      then transparent (pixel img p) else pixel img p)"
proof -
  have m: "(4 * p) mod 4 \<noteq> 3" "(4 * p + 1) mod 4 \<noteq> 3" "(4 * p + 2) mod 4 \<noteq> 3"
    "(4 * p + 3) mod 4 = 3" "4 * p + 3 - 3 = 4 * p"
    by presburger+
  have lt: "4 * p < length (r_data img)" "4 * p + 1 < length (r_data img)"
    "4 * p + 2 < length (r_data img)"
    using assms by simp_all
  have "r_data (remove_background t img) ! (4 * p) = r_data img ! (4 * p)"
    "r_data (remove_background t img) ! (4 * p + 1) = r_data img ! (4 * p + 1)"
    "r_data (remove_background t img) ! (4 * p + 2) = r_data img ! (4 * p + 2)"
    using m lt by (simp_all only: remove_background_nth if_False simp_thms)
  moreover have "r_data (remove_background t img) ! (4 * p + 3) =
    (if 255 - real_of_int t * 2.55 < rgb_average (pixel img p) then 0
     else r_data img ! (4 * p + 3))"
    using assms m
    by (simp only: remove_background_nth brightness_pixel simp_thms)
       (simp add: exceeds_def thresh_of_def)
  ultimately show ?thesis
    by (simp add: pixel_def)
qed

text \<open>
  Claim C3.  The source image is decoded (\<^verbatim>\<open>img.complete\<close>, a 2D context, four bytes
  for each pixel) and the threshold is an integer from 0 to 100.  At threshold 0 the
  effect sets the processed image to the source itself.  Otherwise it sets it to the
  encoding of a buffer of the same width, height and length in which every pixel whose
  average of red, green and blue exceeds \<open>255 - threshold * 2.55\<close> has alpha 0 and its
  colour channels as before, and every other pixel is as before in all four channels.
\<close>

theorem background_removal_correct:
  assumes "img_complete" and "ctx"
    and "0 \<le> threshold s" and "threshold s \<le> 100"
    and "well_formed (decode src)"
  shows "processedSrc (process_effect decode encode img_complete ctx src s) =
           (if threshold s = 0 then src
            else encode (remove_background (threshold s) (decode src)))
     \<and> r_width (remove_background (threshold s) (decode src)) = r_width (decode src)
     \<and> r_height (remove_background (threshold s) (decode src)) = r_height (decode src)
     \<and> length (r_data (remove_background (threshold s) (decode src)))
         = length (r_data (decode src))
     \<and> (\<forall>p < r_width (decode src) * r_height (decode src).
           pixel (remove_background (threshold s) (decode src)) p =
             (if 255 - real_of_int (threshold s) * 2.55 < rgb_average (pixel (decode src) p)
              then transparent (pixel (decode src) p)
              else pixel (decode src) p))"
proof -
  have "\<And>p. p < r_width (decode src) * r_height (decode src)
          \<Longrightarrow> 4 * p + 3 < length (r_data (decode src))"
    using assms(5) by (simp add: well_formed_def)
  then have "\<forall>p < r_width (decode src) * r_height (decode src).
           pixel (remove_background (threshold s) (decode src)) p =
             (if 255 - real_of_int (threshold s) * 2.55 < rgb_average (pixel (decode src) p)
              then transparent (pixel (decode src) p)
              else pixel (decode src) p)"
    using remove_background_pixel by blast
  moreover have "processedSrc (process_effect decode encode img_complete ctx src s) =
           (if threshold s = 0 then src
            else encode (remove_background (threshold s) (decode src)))"
    using assms(1,2) by (simp add: process_effect_def)
  moreover have "r_width (remove_background (threshold s) (decode src)) = r_width (decode src)"
    "r_height (remove_background (threshold s) (decode src)) = r_height (decode src)"
    "length (r_data (remove_background (threshold s) (decode src)))
         = length (r_data (decode src))"
    by (simp_all add: remove_background_def length_removeLoop)
  ultimately show ?thesis by blast
qed

lemma white_pixel: "p < 4 \<Longrightarrow> pixel white2x2 p = (255, 255, 255, 255)"
  by (simp add: pixel_def white2x2_def)

lemma white_well_formed: "well_formed white2x2"
  by (simp add: well_formed_def white2x2_def)

text \<open>
  The solid white image of 2 by 2 pixels: at threshold 100 every pixel gets alpha 0; at
  threshold 0 the processed image is the source.
\<close>

theorem background_removal_correct_witness:
  "well_formed white2x2
   \<and> pixel (remove_background 100 white2x2) 0 = (255, 255, 255, 0)
   \<and> pixel (remove_background 100 white2x2) 1 = (255, 255, 255, 0)
   \<and> pixel (remove_background 100 white2x2) 2 = (255, 255, 255, 0)
   \<and> pixel (remove_background 100 white2x2) 3 = (255, 255, 255, 0)
   \<and> processedSrc (process_effect decode_white encode_alpha True True ''white''
         (onThresholdChange 100 (DraggableImage_init ''white'' 50 200)))
       = encode_alpha (remove_background 100 white2x2)
   \<and> processedSrc (process_effect decode_white encode_alpha True True ''white''
         (onThresholdChange 0 (DraggableImage_init ''white'' 50 200))) = ''white''"
proof -
  define s100 where "s100 = onThresholdChange 100 (DraggableImage_init ''white'' 50 200)"
  define s0 where "s0 = onThresholdChange 0 (DraggableImage_init ''white'' 50 200)"
  have t: "threshold s100 = 100" "threshold s0 = 0"
    by (simp_all add: s100_def s0_def onThresholdChange_def DraggableImage_init_def)
  have wf: "well_formed (decode_white ''white'')"
    by (simp add: decode_white_def white_well_formed)
  have a: "processedSrc (process_effect decode_white encode_alpha True True ''white'' s100)
             = encode_alpha (remove_background 100 white2x2)"
    and b: "\<forall>p < 4. pixel (remove_background 100 white2x2) p =
             (if 255 - real_of_int 100 * 2.55 < rgb_average (pixel white2x2 p)
              then transparent (pixel white2x2 p) else pixel white2x2 p)"
    using background_removal_correct [of True True s100 decode_white "''white''" encode_alpha] wf
    by (simp_all add: t decode_white_def white2x2_def)
  have c: "processedSrc (process_effect decode_white encode_alpha True True ''white'' s0)
             = ''white''"
    using background_removal_correct [of True True s0 decode_white "''white''" encode_alpha] wf
    by (simp add: t)
  have "pixel (remove_background 100 white2x2) p = (255, 255, 255, 0)" if "p < 4" for p
    using b that by (simp add: white_pixel)
  then show ?thesis
    using a c white_well_formed by (simp add: s100_def s0_def)
qed

subsection \<open>Drag and resize\<close>

text \<open>
  Moves never take the size below the floor, a pointer-up ends drag and resize, and the
  two panels are never open together.
\<close>

lemma size_floor_preserved:
  "50 \<le> width (img_size s) \<Longrightarrow> 50 \<le> height (img_size s) \<Longrightarrow>
   50 \<le> width (img_size (handleMouseMove z e s)) \<and> 50 \<le> height (img_size (handleMouseMove z e s))"
  by (simp add: handleMouseMove_def drag_branch_def resize_branch_def Let_def split: option.splits)

lemma pointer_up_ends_gesture:
  "\<not> isDragging (handleMouseUp s) \<and> \<not> isResizing (handleMouseUp s)
   \<and> isSelected (handleMouseUp s) = isSelected s
   \<and> handleMouseMove z e (handleMouseUp s) = handleMouseUp s"
  by (simp add: handleMouseUp_def handleMouseMove_def drag_branch_def resize_branch_def)

lemma panels_exclusive:
  "\<not> (showMagic s \<and> showCrop s) \<Longrightarrow>
   \<not> (showMagic (toggleMagic s) \<and> showCrop (toggleMagic s))
   \<and> \<not> (showMagic (toggleCrop s) \<and> showCrop (toggleCrop s))"
  by (simp add: toggleMagic_def toggleCrop_def)

lemma drag_branch_idle: "\<not> isDragging s \<Longrightarrow> drag_branch z e s = s"
  by (simp add: drag_branch_def split: option.splits)

lemma move_while_resizing:
  "resizing_from sd st s \<Longrightarrow>
   handleMouseMove z e s =
     s\<lparr>img_size :=
         \<lparr>width = max 50 (js_add (sd_w sd) (js_div (js_sub (clientX e) (pos_x st)) z)),
          height = max 50 (js_add (sd_h sd) (js_div (js_sub (clientY e) (pos_y st)) z))\<rparr>\<rparr>"
  by (simp add: resizing_from_def handleMouseMove_def drag_branch_idle resize_branch_def)

lemma move_keeps_resizing:
  "resizing_from sd st s \<Longrightarrow> resizing_from sd st (handleMouseMove z e s)
     \<and> position (handleMouseMove z e s) = position s"
  by (simp add: move_while_resizing) (simp add: resizing_from_def)

lemma moves_keep_resizing:
  "resizing_from sd st s \<Longrightarrow> resizing_from sd st (mouseMoves ms s)
     \<and> position (mouseMoves ms s) = position s"
proof (induction ms arbitrary: s)
  case Nil
  then show ?case by simp
next
  case (Cons m ms)
  obtain z e where m: "m = (z, e)" by (cases m)
  from Cons.prems have "resizing_from sd st (handleMouseMove z e s)"
    and "position (handleMouseMove z e s) = position s"
    by (simp_all add: move_keeps_resizing)
  with Cons.IH [of "handleMouseMove z e s"] show ?case
    by (simp add: m)
qed

lemma mouseMoves_append: "mouseMoves (xs @ ys) s = mouseMoves ys (mouseMoves xs s)"
  by (induction xs arbitrary: s) auto

lemma start_resizing:
  "\<not> isDragging s \<Longrightarrow>
   resizing_from \<lparr>sd_w = width (img_size s), sd_h = height (img_size s),
                   sd_x = pos_x (position s), sd_y = pos_y (position s)\<rparr>
     \<lparr>pos_x = clientX e, pos_y = clientY e\<rparr> (handleResizeStart e s)
   \<and> position (handleResizeStart e s) = position s
   \<and> img_size (handleResizeStart e s) = img_size s"
  by (simp add: resizing_from_def handleResizeStart_def)

text \<open>
  Claim C5 as stated fails in two ways.  Drag and resize share \<^verbatim>\<open>dragStartRef\<close>: when
  the Move button is pressed during a resize, the next pointer move shifts the position
  by the drag, re-records the pointer, and so measures a resize delta of 0: the size
  stays 200 by 200 where the claim has 200 + 150, and the position changes.  And the
  sum is a double: at zoom 3 a move by 100 gives the width 233.33333333333334, not
  \<open>200 + 100 / 3\<close>.
\<close>

theorem resize_overwritten_by_drag:
  "img_size (handleMouseMove 1 (on_handle 400 400)
       (handleMouseDown (on_handle 300 300)
          (handleResizeStart (on_handle 250 250) (DraggableImage_init ''img'' 50 200))))
     = \<lparr>width = 200, height = 200\<rparr>
   \<and> position (handleMouseMove 1 (on_handle 400 400)
       (handleMouseDown (on_handle 300 300)
          (handleResizeStart (on_handle 250 250) (DraggableImage_init ''img'' 50 200))))
     = \<lparr>pos_x = 150, pos_y = 300\<rparr>
   \<and> width (img_size (handleMouseMove 3 (on_handle 350 250)
       (handleResizeStart (on_handle 250 250) (DraggableImage_init ''img'' 50 200))))
     = 8209686820727467 / 35184372088832
   \<and> width (img_size (handleMouseMove 3 (on_handle 350 250)
       (handleResizeStart (on_handle 250 250) (DraggableImage_init ''img'' 50 200))))
     \<noteq> 200 + (350 - 250) / 3"
  apply (simp add: handleMouseMove_def drag_branch_def resize_branch_def handleMouseDown_def
        handleResizeStart_def DraggableImage_init_def on_handle_def Let_def)
  apply (simp add: js_add_def js_sub_def js_div_def rnd_zero)
  apply (simp add: js_eval)
  done

text \<open>
  Claim C5, amended.  A resize starts with a pointer-down at \<open>e0\<close> on the corner handle of
  an element that is not being dragged, and pointer moves follow, at zoom values within
  0.2 and 3 and with all coordinates within bounds.  After the last move \<open>e\<close> at zoom
  \<open>z\<close>, width and height are, each at least 50, the double sum of the width and height
  the element had when the resize started and the double quotient by \<open>z\<close> of the
  distance of \<open>e\<close> from \<open>e0\<close>: the moves before do not matter, since the pointer-down
  point is not re-recorded.  The position is the one before the resize, and the
  pointer-down itself leaves the size alone.
\<close>

theorem resize_from_snapshot:
  assumes "\<not> isDragging s"
    and "list_all resize_move_ok (ms @ [(z, e)])"
    and "in_range (clientX e0)" and "in_range (clientY e0)"
    and "in_range (width (img_size s))" and "in_range (height (img_size s))"
  shows "img_size (mouseMoves (ms @ [(z, e)]) (handleResizeStart e0 s)) =
           \<lparr>width = max 50 (js_add (width (img_size s))
                               (js_div (js_sub (clientX e) (clientX e0)) z)),
            height = max 50 (js_add (height (img_size s))
                                (js_div (js_sub (clientY e) (clientY e0)) z))\<rparr>
     \<and> 50 \<le> width (img_size (mouseMoves (ms @ [(z, e)]) (handleResizeStart e0 s)))
     \<and> 50 \<le> height (img_size (mouseMoves (ms @ [(z, e)]) (handleResizeStart e0 s)))
     \<and> position (mouseMoves (ms @ [(z, e)]) (handleResizeStart e0 s)) = position s
     \<and> img_size (handleResizeStart e0 s) = img_size s"
proof -
  let ?sd = "\<lparr>sd_w = width (img_size s), sd_h = height (img_size s),
                   sd_x = pos_x (position s), sd_y = pos_y (position s)\<rparr>"
  let ?st = "\<lparr>pos_x = clientX e0, pos_y = clientY e0\<rparr>"
  let ?s1 = "mouseMoves ms (handleResizeStart e0 s)"
  have s0: "resizing_from ?sd ?st (handleResizeStart e0 s)"
    "position (handleResizeStart e0 s) = position s"
    "img_size (handleResizeStart e0 s) = img_size s"
    using assms(1) by (simp_all add: start_resizing)
  then have s1: "resizing_from ?sd ?st ?s1" "position ?s1 = position s"
    by (simp_all add: moves_keep_resizing)
  have "mouseMoves (ms @ [(z, e)]) (handleResizeStart e0 s) = handleMouseMove z e ?s1"
    by (simp add: mouseMoves_append)
  also have "\<dots> = ?s1\<lparr>img_size :=
         \<lparr>width = max 50 (js_add (sd_w ?sd) (js_div (js_sub (clientX e) (pos_x ?st)) z)),
          height = max 50 (js_add (sd_h ?sd) (js_div (js_sub (clientY e) (pos_y ?st)) z))\<rparr>\<rparr>"
    using s1(1) by (rule move_while_resizing)
  finally show ?thesis
    using s0 s1 by simp
qed

text \<open>
  An element of 200 by 200 at (50, 200): after a far move to the left at zoom 0.5 the
  width is 50, the height 200 + 100 / 0.5, the position unchanged.
\<close>

theorem resize_from_snapshot_witness:
  "img_size (mouseMoves [(1, on_handle 260 240), (0.5, on_handle (- 1000) 350)]
       (handleResizeStart (on_handle 250 250) (DraggableImage_init ''img'' 50 200)))
     = \<lparr>width = 50, height = 400\<rparr>
   \<and> position (mouseMoves [(1, on_handle 260 240), (0.5, on_handle (- 1000) 350)]
       (handleResizeStart (on_handle 250 250) (DraggableImage_init ''img'' 50 200)))
     = \<lparr>pos_x = 50, pos_y = 200\<rparr>"
  using resize_from_snapshot [of "DraggableImage_init ''img'' 50 200" "[(1, on_handle 260 240)]"
          "0.5" "on_handle (- 1000) 350" "on_handle 250 250"]
  apply (simp add: DraggableImage_init_def on_handle_def in_range_def)
  apply (simp add: js_eval)
  done

text \<open>
  Claim C4 as stated fails: the position after a move is a double.  A text element at
  (50, 200) dragged by 100 on the screen at zoom 3 is at 83.33333333333334, which is not
  \<open>50 + 100 / 3\<close>.
\<close>

theorem drag_at_zoom_3_is_rounded:
  "pos_x (txt_position (txt_handleMouseMove 3 (on_handle 400 350)
        (txt_handleMouseDown (on_handle 300 300) (DraggableText_init 50 200))))
     = 2932031007402667 / 35184372088832
   \<and> pos_x (txt_position (txt_handleMouseMove 3 (on_handle 400 350)
        (txt_handleMouseDown (on_handle 300 300) (DraggableText_init 50 200))))
     \<noteq> 50 + (400 - 300) / 3"
  apply (simp add: txt_handleMouseMove_def txt_handleMouseDown_def DraggableText_init_def
        on_handle_def Let_def)
  apply (simp add: js_eval)
  done

text \<open>
  Claim C4, amended.  At a zoom within 0.2 and 3 and with coordinates within bounds, a
  pointer move of an element being dragged sets each coordinate of its position to the
  double sum of the coordinate and the double quotient by the zoom of the distance of
  the pointer from the recorded point, and records the pointer's position as the new
  point; the touch handler does the same.  This holds for text and for image elements.
  Where the difference, the quotient and the sum are doubles themselves, the new
  coordinate is exactly the old one plus the distance divided by the zoom.  At zoom 1
  the distance is added as it is.
\<close>

theorem drag_adds_rounded_delta:
  assumes "0.2 \<le> z" and "z \<le> 3"
    and "txt_isDragging s" and "txt_dragStartRef s = Some st"
    and "move_in_range e st (txt_position s)"
    and "isDragging si" and "dragStartRef si = Some sti"
    and "move_in_range e sti (position si)"
  shows "txt_position (txt_handleMouseMove z e s) =
           \<lparr>pos_x = js_add (pos_x (txt_position s)) (js_div (js_sub (clientX e) (pos_x st)) z),
            pos_y = js_add (pos_y (txt_position s)) (js_div (js_sub (clientY e) (pos_y st)) z)\<rparr>
     \<and> txt_dragStartRef (txt_handleMouseMove z e s) = Some \<lparr>pos_x = clientX e, pos_y = clientY e\<rparr>
     \<and> txt_isDragging (txt_handleMouseMove z e s)
     \<and> txt_handleTouchMove z e s = txt_handleMouseMove z e s
     \<and> position (handleMouseMove z e si) =
           \<lparr>pos_x = js_add (pos_x (position si)) (js_div (js_sub (clientX e) (pos_x sti)) z),
            pos_y = js_add (pos_y (position si)) (js_div (js_sub (clientY e) (pos_y sti)) z)\<rparr>
     \<and> (rnd (clientX e - pos_x st) = clientX e - pos_x st
          \<and> rnd ((clientX e - pos_x st) / z) = (clientX e - pos_x st) / z
          \<and> rnd (pos_x (txt_position s) + (clientX e - pos_x st) / z)
               = pos_x (txt_position s) + (clientX e - pos_x st) / z
        \<longrightarrow> pos_x (txt_position (txt_handleMouseMove z e s))
               = pos_x (txt_position s) + (clientX e - pos_x st) / z)
     \<and> (rnd (clientY e - pos_y st) = clientY e - pos_y st
          \<and> rnd ((clientY e - pos_y st) / z) = (clientY e - pos_y st) / z
          \<and> rnd (pos_y (txt_position s) + (clientY e - pos_y st) / z)
               = pos_y (txt_position s) + (clientY e - pos_y st) / z
        \<longrightarrow> pos_y (txt_position (txt_handleMouseMove z e s))
               = pos_y (txt_position s) + (clientY e - pos_y st) / z)
     \<and> (z = 1 \<longrightarrow> txt_position (txt_handleMouseMove z e s) =
           \<lparr>pos_x = js_add (pos_x (txt_position s)) (js_sub (clientX e) (pos_x st)),
            pos_y = js_add (pos_y (txt_position s)) (js_sub (clientY e) (pos_y st))\<rparr>)"
proof -
  have t: "txt_handleMouseMove z e s =
      s\<lparr>txt_position :=
          \<lparr>pos_x = js_add (pos_x (txt_position s)) (js_div (js_sub (clientX e) (pos_x st)) z),
           pos_y = js_add (pos_y (txt_position s)) (js_div (js_sub (clientY e) (pos_y st)) z)\<rparr>,
        txt_dragStartRef := Some \<lparr>pos_x = clientX e, pos_y = clientY e\<rparr>\<rparr>"
    using assms(3,4) by (simp add: txt_handleMouseMove_def)
  have i: "position (handleMouseMove z e si) =
           \<lparr>pos_x = js_add (pos_x (position si)) (js_div (js_sub (clientX e) (pos_x sti)) z),
            pos_y = js_add (pos_y (position si)) (js_div (js_sub (clientY e) (pos_y sti)) z)\<rparr>"
    using assms(6,7)
    by (simp add: handleMouseMove_def drag_branch_def resize_branch_def split: option.splits)
  have x: "pos_x (txt_position (txt_handleMouseMove z e s))
               = pos_x (txt_position s) + (clientX e - pos_x st) / z"
    if "rnd (clientX e - pos_x st) = clientX e - pos_x st"
      "rnd ((clientX e - pos_x st) / z) = (clientX e - pos_x st) / z"
      "rnd (pos_x (txt_position s) + (clientX e - pos_x st) / z)
               = pos_x (txt_position s) + (clientX e - pos_x st) / z"
    using that by (simp add: t js_add_def js_sub_def js_div_def)
  have y: "pos_y (txt_position (txt_handleMouseMove z e s))
               = pos_y (txt_position s) + (clientY e - pos_y st) / z"
    if "rnd (clientY e - pos_y st) = clientY e - pos_y st"
      "rnd ((clientY e - pos_y st) / z) = (clientY e - pos_y st) / z"
      "rnd (pos_y (txt_position s) + (clientY e - pos_y st) / z)
               = pos_y (txt_position s) + (clientY e - pos_y st) / z"
    using that by (simp add: t js_add_def js_sub_def js_div_def)
  have o: "txt_position (txt_handleMouseMove z e s) =
           \<lparr>pos_x = js_add (pos_x (txt_position s)) (js_sub (clientX e) (pos_x st)),
            pos_y = js_add (pos_y (txt_position s)) (js_sub (clientY e) (pos_y st))\<rparr>"
    if "z = 1"
    using that t by (simp add: js_div_one)
  have c: "txt_position (txt_handleMouseMove z e s) =
           \<lparr>pos_x = js_add (pos_x (txt_position s)) (js_div (js_sub (clientX e) (pos_x st)) z),
            pos_y = js_add (pos_y (txt_position s)) (js_div (js_sub (clientY e) (pos_y st)) z)\<rparr>"
    "txt_dragStartRef (txt_handleMouseMove z e s) = Some \<lparr>pos_x = clientX e, pos_y = clientY e\<rparr>"
    "txt_isDragging (txt_handleMouseMove z e s)"
    "txt_handleTouchMove z e s = txt_handleMouseMove z e s"
    using assms(3) by (simp_all add: t txt_handleTouchMove_def)
  show ?thesis
    using c i x y o by blast
qed

text \<open>
  A text element added by \<^verbatim>\<open>ADD_TEXT\<close> is rendered at (50, 200); dragged by (100, 50) on
  the screen at zoom 0.5 it is at (250, 300), and a further move by (10, 0) is measured
  from the end of the first; at zoom 1 the same drag ends at (150, 250).
\<close>

theorem drag_adds_rounded_delta_witness:
  "map render_text (textBlocks (action_effect 1700000000000 (Some (ADD_TEXT 1700000000000))
        TajmirTemplate_init)) = [DraggableText_init 50 200]
   \<and> txt_position (txt_handleMouseMove 0.5 (on_handle 400 350)
        (txt_handleMouseDown (on_handle 300 300) (DraggableText_init 50 200)))
       = \<lparr>pos_x = 250, pos_y = 300\<rparr>
   \<and> txt_position (txt_handleMouseMove 0.5 (on_handle 410 350)
        (txt_handleMouseMove 0.5 (on_handle 400 350)
           (txt_handleMouseDown (on_handle 300 300) (DraggableText_init 50 200))))
       = \<lparr>pos_x = 270, pos_y = 300\<rparr>
   \<and> txt_position (txt_handleMouseMove 1 (on_handle 400 350)
        (txt_handleMouseDown (on_handle 300 300) (DraggableText_init 50 200)))
       = \<lparr>pos_x = 150, pos_y = 250\<rparr>
   \<and> position (handleMouseMove 0.5 (on_handle 400 350)
        (handleMouseDown (on_handle 300 300) (DraggableImage_init ''img'' 50 200)))
       = \<lparr>pos_x = 250, pos_y = 300\<rparr>"
proof -
  let ?t0 = "txt_handleMouseDown (on_handle 300 300) (DraggableText_init 50 200)"
  let ?i0 = "handleMouseDown (on_handle 300 300) (DraggableImage_init ''img'' 50 200)"
  let ?p = "\<lparr>pos_x = 300, pos_y = 300\<rparr>"
  have r: "rnd 100 = 100" "rnd 200 = 200" "rnd 250 = 250" "rnd 50 = 50" "rnd 300 = 300"
    "rnd 10 = 10" "rnd 20 = 20" "rnd 270 = 270" "rnd 150 = 150"
    by (simp_all add: js_eval)
  have a: "txt_position (txt_handleMouseMove 0.5 (on_handle 400 350) ?t0)
       = \<lparr>pos_x = 250, pos_y = 300\<rparr>"
    and b: "position (handleMouseMove 0.5 (on_handle 400 350) ?i0) = \<lparr>pos_x = 250, pos_y = 300\<rparr>"
    and c: "txt_dragStartRef (txt_handleMouseMove 0.5 (on_handle 400 350) ?t0)
       = Some \<lparr>pos_x = 400, pos_y = 350\<rparr>"
    and d: "txt_isDragging (txt_handleMouseMove 0.5 (on_handle 400 350) ?t0)"
    using drag_adds_rounded_delta [of "0.5" ?t0 ?p "on_handle 400 350" ?i0 ?p]
    by (simp_all add: txt_handleMouseDown_def handleMouseDown_def DraggableText_init_def
        DraggableImage_init_def on_handle_def move_in_range_def pos_in_range_def in_range_def
        js_add_def js_sub_def js_div_def r rnd_zero)
  have e: "txt_position (txt_handleMouseMove 0.5 (on_handle 410 350)
        (txt_handleMouseMove 0.5 (on_handle 400 350) ?t0)) = \<lparr>pos_x = 270, pos_y = 300\<rparr>"
    using drag_adds_rounded_delta [of "0.5" "txt_handleMouseMove 0.5 (on_handle 400 350) ?t0"
            "\<lparr>pos_x = 400, pos_y = 350\<rparr>" "on_handle 410 350" ?i0 ?p] a c d
    by (simp add: handleMouseDown_def DraggableImage_init_def on_handle_def move_in_range_def
        pos_in_range_def in_range_def js_add_def js_sub_def js_div_def r rnd_zero)
  have f: "txt_position (txt_handleMouseMove 1 (on_handle 400 350) ?t0)
       = \<lparr>pos_x = 150, pos_y = 250\<rparr>"
    using drag_adds_rounded_delta [of 1 ?t0 ?p "on_handle 400 350" ?i0 ?p]
    by (simp add: txt_handleMouseDown_def handleMouseDown_def DraggableText_init_def
        DraggableImage_init_def on_handle_def move_in_range_def pos_in_range_def in_range_def
        js_add_def js_sub_def js_div_def r rnd_zero)
  have g: "map render_text (textBlocks (action_effect 1700000000000
        (Some (ADD_TEXT 1700000000000)) TajmirTemplate_init)) = [DraggableText_init 50 200]"
    by (simp add: action_effect_def TajmirTemplate_init_def render_text_def)
  from a b e f g show ?thesis by simp
qed

subsection \<open>Crop inputs\<close>

lemma crop_input_within_bounds:
  "within_crop_bounds v \<Longrightarrow>
   crop_side sd' (crop (onCropChange sd v s)) = (if sd' = sd then v else crop_side sd' (crop s))
   \<and> onCropChange sd v s = s\<lparr>crop := crop (onCropChange sd v s)\<rparr>"
  by (cases sd; cases sd') simp_all

text \<open>
  Claim C6.  Every crop input declares the bounds \<^verbatim>\<open>min="0" max="50"\<close>, and its handler
  checks nothing.  The value 75 typed for the top side of a new element is outside the
  bounds and replaces the 0 stored before, where the claim has the input ignored and
  the 0 retained; so does \<open>- 5\<close> for the left side.
\<close>

theorem crop_input_out_of_range_stored:
  "\<not> within_crop_bounds 75
   \<and> crop_t (crop (DraggableImage_init ''img'' 50 200)) = 0
   \<and> crop_t (crop (onCropChange Top 75 (DraggableImage_init ''img'' 50 200))) = 75
   \<and> \<not> within_crop_bounds (- 5)
   \<and> crop_l (crop (onCropChange Left (- 5) (DraggableImage_init ''img'' 50 200))) = - 5"
  by (simp add: DraggableImage_init_def within_crop_bounds_def crop_input_min_def
        crop_input_max_def)

subsection \<open>Pointer-down outside the element\<close>

lemma mouse_outside_deselects:
  "\<not> in_container e \<Longrightarrow> \<not> in_control_btn e \<Longrightarrow> \<not> in_tool_panel e \<Longrightarrow>
   \<not> isSelected (handleClickOutside e s) \<and> \<not> showMagic (handleClickOutside e s)
     \<and> \<not> showCrop (handleClickOutside e s)"
  by (simp add: handleClickOutside_def)

lemma touch_outside_keeps_panels:
  "showMagic (touchstartOutside e s) = showMagic s \<and> showCrop (touchstartOutside e s) = showCrop s"
  by (simp add: touchstartOutside_def)

text \<open>
  Claim C7.  A selected image element with the background-removal panel open receives a
  pointer-down outside itself and its controls.  The \<^verbatim>\<open>mousedown\<close> listener deselects it
  and closes the panel.  The \<^verbatim>\<open>touchstart\<close> listener deselects it and leaves
  \<^verbatim>\<open>showMagic\<close> set: the panel is open again as soon as the element is selected again.
\<close>

theorem touch_outside_leaves_panel_open:
  "isSelected selected_with_panel \<and> showMagic selected_with_panel
   \<and> \<not> isSelected (touchstartOutside (outside 700 900) selected_with_panel)
   \<and> showMagic (touchstartOutside (outside 700 900) selected_with_panel)
   \<and> showMagic (handleContainerClick (touchstartOutside (outside 700 900) selected_with_panel))
   \<and> \<not> isSelected (handleClickOutside (outside 700 900) selected_with_panel)
   \<and> \<not> showMagic (handleClickOutside (outside 700 900) selected_with_panel)
   \<and> \<not> showMagic (handleContainerClick (handleClickOutside (outside 700 900) selected_with_panel))"
  by (simp add: selected_with_panel_def toggleMagic_def handleContainerClick_def
        DraggableImage_init_def touchstartOutside_def handleClickOutside_def outside_def)

subsection \<open>Identifiers\<close>

lemma text_ids_add_commands:
  "map tb_id (textBlocks (add_commands cs s)) =
     map tb_id (textBlocks s) @ map fst (filter adds_text cs)"
proof (induction cs arbitrary: s)
  case Nil
  then show ?case by simp
next
  case (Cons c cs)
  obtain now a where c: "c = (now, a)" by (cases c)
  show ?case
    by (cases a) (simp_all add: c Cons.IH action_effect_def)
qed

lemma image_ids_add_commands:
  "map ib_id (imageBlocks (add_commands cs s)) =
     map ib_id (imageBlocks s) @ map fst (filter adds_image cs)"
proof (induction cs arbitrary: s)
  case Nil
  then show ?case by simp
next
  case (Cons c cs)
  obtain now a where c: "c = (now, a)" by (cases c)
  show ?case
    by (cases a) (simp_all add: c Cons.IH action_effect_def)
qed

lemma increasing_filter:
  "sorted_wrt (<) (xs @ map fst cs) \<Longrightarrow> sorted_wrt (<) (xs @ map fst (filter P cs))"
  for xs :: "int list"
  by (auto simp: sorted_wrt_append sorted_wrt_map intro: sorted_wrt_filter)

lemma increasing_distinct: "sorted_wrt (<) xs \<Longrightarrow> distinct xs" for xs :: "int list"
  by (induction xs) auto

text \<open>
  Claim C8 as stated fails: the id is the clock reading, and two add commands whose
  effects run in the same millisecond get the same id.
\<close>

theorem same_millisecond_same_id:
  "map tb_id (textBlocks (add_commands [(1000, ADD_TEXT 1000), (1000, ADD_TEXT 1000)]
       TajmirTemplate_init)) = [1000, 1000]
   \<and> \<not> distinct (map tb_id (textBlocks (add_commands [(1000, ADD_TEXT 1000), (1000, ADD_TEXT 1000)]
       TajmirTemplate_init)))"
  by (simp add: action_effect_def TajmirTemplate_init_def)

text \<open>
  Claim C8, amended.  The id of a new element is the clock reading of its add command.
  When the readings of the commands increase strictly and exceed the ids already in the
  collections, the ids of each collection are increasing in creation order and pairwise
  distinct.
\<close>

theorem ids_follow_the_clock:
  assumes "sorted_wrt (<) (map tb_id (textBlocks s) @ map fst cs)"
    and "sorted_wrt (<) (map ib_id (imageBlocks s) @ map fst cs)"
  shows "sorted_wrt (<) (map tb_id (textBlocks (add_commands cs s)))
     \<and> distinct (map tb_id (textBlocks (add_commands cs s)))
     \<and> sorted_wrt (<) (map ib_id (imageBlocks (add_commands cs s)))
     \<and> distinct (map ib_id (imageBlocks (add_commands cs s)))
     \<and> map tb_id (textBlocks (add_commands cs s))
         = map tb_id (textBlocks s) @ map fst (filter adds_text cs)
     \<and> map ib_id (imageBlocks (add_commands cs s))
         = map ib_id (imageBlocks s) @ map fst (filter adds_image cs)"
proof -
  have t: "sorted_wrt (<) (map tb_id (textBlocks (add_commands cs s)))"
    unfolding text_ids_add_commands using assms(1) by (rule increasing_filter)
  have i: "sorted_wrt (<) (map ib_id (imageBlocks (add_commands cs s)))"
    unfolding image_ids_add_commands using assms(2) by (rule increasing_filter)
  from t i show ?thesis
    using text_ids_add_commands [of cs s] image_ids_add_commands [of cs s]
    by (simp only: increasing_distinct simp_thms)
qed

theorem ids_follow_the_clock_witness:
  "map tb_id (textBlocks (add_commands [(1000, ADD_TEXT 1000), (1001, ADD_IMAGE ''data:a''),
       (1002, ADD_TEXT 1002)] TajmirTemplate_init)) = [1000, 1002]
   \<and> map ib_id (imageBlocks (add_commands [(1000, ADD_TEXT 1000), (1001, ADD_IMAGE ''data:a''),
       (1002, ADD_TEXT 1002)] TajmirTemplate_init)) = [1001]
   \<and> distinct (map tb_id (textBlocks (add_commands [(1000, ADD_TEXT 1000),
       (1001, ADD_IMAGE ''data:a''), (1002, ADD_TEXT 1002)] TajmirTemplate_init)))"
  using ids_follow_the_clock [of TajmirTemplate_init
          "[(1000, ADD_TEXT 1000), (1001, ADD_IMAGE ''data:a''), (1002, ADD_TEXT 1002)]"]
  by (simp add: TajmirTemplate_init_def)

subsection \<open>Initial state of an image element\<close>

text \<open>
  Claim C10.  A new image element has size 200 by 200, threshold 0, no crop, no panel
  open, is not selected, dragged or resized and shows no controls; its processed image
  is its source, and the processing effect run on it leaves it so.  It is placed at the
  position of its block.
\<close>

theorem image_initial_state:
  "position (DraggableImage_init src ix iy) = \<lparr>pos_x = ix, pos_y = iy\<rparr>
   \<and> img_size (DraggableImage_init src ix iy) = \<lparr>width = 200, height = 200\<rparr>
   \<and> threshold (DraggableImage_init src ix iy) = 0
   \<and> crop (DraggableImage_init src ix iy) = \<lparr>crop_t = 0, crop_r = 0, crop_b = 0, crop_l = 0\<rparr>
   \<and> showMagic (DraggableImage_init src ix iy) = False
   \<and> showCrop (DraggableImage_init src ix iy) = False
   \<and> isSelected (DraggableImage_init src ix iy) = False
   \<and> isDragging (DraggableImage_init src ix iy) = False
   \<and> isResizing (DraggableImage_init src ix iy) = False
   \<and> showControls (DraggableImage_init src ix iy) = False
   \<and> processedSrc (DraggableImage_init src ix iy) = src
   \<and> process_effect decode encode img_complete ctx src (DraggableImage_init src ix iy)
       = DraggableImage_init src ix iy
   \<and> render_image \<lparr>ib_id = i, ib_src = src, ib_x = ix, ib_y = iy\<rparr> = DraggableImage_init src ix iy"
  by (simp add: DraggableImage_init_def process_effect_def showControls_def render_image_def)

subsection \<open>Persistence failures\<close>





text \<open>
  Two facts about the code next to the guarded block.  A record that parses to a value
  that is not an array, here \<^verbatim>\<open>null\<close>, is stored without a log line, and rendering the
  layers then throws.  The reads of the editable regions come before the block, so a
  storage that refuses reads makes the mount effect throw.
\<close>

lemma non_array_record_is_stored:
  "load_draggables null_getItem parse_example (cells_of TajmirTemplate_init)
     = ((cells_of TajmirTemplate_init)\<lparr>textCell := JNull, imageCell := JNull\<rparr>, [])
   \<and> render_layers (fst (load_draggables null_getItem parse_example
         (cells_of TajmirTemplate_init))) = Throws ''TypeError''"
  by (simp add: load_draggables_def load_try_def read_record_def null_getItem_def
        parse_example_def render_layers_def map_blocks_def)

lemma unguarded_region_read:
  "load_effect denied_getItem parse_example (cells_of TajmirTemplate_init)
     = Throws ''SecurityError''"
  by (simp add: load_effect_def content_keys_def loadContent_def denied_getItem_def)

end
